theory Spec2Isabelle
  imports Complex_Main "HOL-Library.Sublist"
begin

section \<open>The background worker's constants and helpers\<close>

text \<open>
  The service worker of the extension keeps all of its state in \<^verbatim>\<open>chrome.storage.local\<close>,
  registers alarms with \<^verbatim>\<open>chrome.alarms\<close> and reacts to messages and alarm events.
  Every handler is modelled as a function from the world before the event to the world
  after it.  What a handler takes from its environment (\<^verbatim>\<open>Math.random()\<close>,
  \<^verbatim>\<open>Date.now()\<close>, the id of a created tab, whether script injection throws) is a
  parameter of the function.  \<^verbatim>\<open>Date.now()\<close> is read once per handler run.
\<close>

record config =
  days :: nat
  minSessionsPerDay :: nat
  maxSessionsPerDay :: nat
  minBetweenHours :: real
  maxBetweenHours :: real
  maxWatchSeconds :: nat
  defaultKeywords :: "string list"
  maxLogs :: nat

definition CONFIG :: config where
  "CONFIG = \<lparr> days = 7, minSessionsPerDay = 3, maxSessionsPerDay = 5,
     minBetweenHours = 2, maxBetweenHours = 6, maxWatchSeconds = 15 * 60,
     defaultKeywords = [''popular tech news'', ''trending music'', ''funny cat videos''],
     maxLogs = 50 \<rparr>"

subsection \<open>Numbers\<close>

text \<open>
  A JavaScript number is a double.  The finite doubles are reals, and an arithmetic
  operation gives the double nearest to the exact result, a tie going to the even
  significand.  \<open>fl53\<close> is that rounding: \<open>exponent x\<close> is the binary exponent of \<open>x\<close> (not
  below \<open>-1022\<close>, where the subnormal numbers start), \<open>ulp x\<close> the distance between
  neighbouring doubles there (53 significant bits), and \<open>x\<close> is rounded to the nearest
  multiple of \<open>ulp x\<close>.  A result of magnitude \<open>2^1024\<close> or more is \<^verbatim>\<open>Infinity\<close> in the code;
  the model does not have it, so it speaks of the code only where no result is that large.
\<close>

definition round_even :: "real \<Rightarrow> int" where
  "round_even q =
     (if q - of_int \<lfloor>q\<rfloor> < 1 / 2 then \<lfloor>q\<rfloor>
      else if 1 / 2 < q - of_int \<lfloor>q\<rfloor> then \<lfloor>q\<rfloor> + 1
      else if even \<lfloor>q\<rfloor> then \<lfloor>q\<rfloor> else \<lfloor>q\<rfloor> + 1)"

text \<open>The exponent of a number from 1 on is the number of halvings that bring it below 2.
  Below 1 it is minus the number of doublings that bring the number to 1; after 1022
  doublings the exponent stays \<open>-1022\<close>.\<close>

function exponent_up :: "real \<Rightarrow> int" where
  "exponent_up x = (if x < 2 then 0 else exponent_up (x / 2) + 1)"
  by pat_completeness auto
termination
proof (relation "measure (\<lambda>x. nat \<lfloor>x\<rfloor>)")
  show "wf (measure (\<lambda>x. nat \<lfloor>x\<rfloor>))" by simp
next
  fix x :: real
  assume "\<not> x < 2"
  then have a: "x / 2 \<le> x - 1" by simp
  have b: "real_of_int \<lfloor>x / 2\<rfloor> \<le> x / 2" by (rule of_int_floor_le)
  have c: "x - 1 < real_of_int \<lfloor>x\<rfloor>" by linarith
  from a b c have "real_of_int \<lfloor>x / 2\<rfloor> < real_of_int \<lfloor>x\<rfloor>" by linarith
  then have "\<lfloor>x / 2\<rfloor> < \<lfloor>x\<rfloor>" by (simp only: of_int_less_iff)
  moreover have "0 < \<lfloor>x\<rfloor>" using \<open>\<not> x < 2\<close> by simp
  ultimately show "(x / 2, x) \<in> measure (\<lambda>x. nat \<lfloor>x\<rfloor>)" by simp
qed

declare exponent_up.simps [simp del]

fun exponent_down :: "nat \<Rightarrow> real \<Rightarrow> int" where
  "exponent_down 0 x = 0"
| "exponent_down (Suc n) x = (if 1 \<le> x then 0 else exponent_down n (2 * x) - 1)"

definition exponent :: "real \<Rightarrow> int" where
  "exponent x = (if 1 \<le> \<bar>x\<bar> then exponent_up \<bar>x\<bar> else exponent_down 1022 \<bar>x\<bar>)"

definition ulp :: "real \<Rightarrow> real" where
  "ulp x = (if 52 \<le> exponent x then 2 ^ nat (exponent x - 52) else 1 / 2 ^ nat (52 - exponent x))"

definition fl53 :: "real \<Rightarrow> real" where
  "fl53 x = of_int (round_even (x / ulp x)) * ulp x"

text \<open>The operators \<^verbatim>\<open>+\<close>, \<^verbatim>\<open>-\<close> and \<^verbatim>\<open>*\<close> on doubles.\<close>

definition js_add :: "real \<Rightarrow> real \<Rightarrow> real" where
  "js_add x y = fl53 (x + y)"

definition js_sub :: "real \<Rightarrow> real \<Rightarrow> real" where
  "js_sub x y = fl53 (x - y)"

definition js_mul :: "real \<Rightarrow> real \<Rightarrow> real" where
  "js_mul x y = fl53 (x * y)"

text \<open>\<^verbatim>\<open>rand(min, max) = Math.random() * (max - min) + min\<close> and
  \<^verbatim>\<open>randInt(min, max) = Math.floor(rand(min, max + 1))\<close>; the draw \<open>u\<close> of \<^verbatim>\<open>Math.random()\<close>
  is passed in.\<close>

definition rand :: "real \<Rightarrow> real \<Rightarrow> real \<Rightarrow> real" where
  "rand u lo hi = js_add (js_mul u (js_sub hi lo)) lo"

definition randInt :: "real \<Rightarrow> real \<Rightarrow> real \<Rightarrow> int" where
  "randInt u lo hi = \<lfloor>rand u lo (js_add hi 1)\<rfloor>"

text \<open>\<^verbatim>\<open>h * 60 * 60 * 1000\<close> and \<^verbatim>\<open>d * 24 * 60 * 60 * 1000\<close>, multiplied from the left.\<close>

definition hours_ms :: "real \<Rightarrow> real" where
  "hours_ms h = js_mul (js_mul (js_mul h 60) 60) 1000"

definition days_ms :: "real \<Rightarrow> real" where
  "days_ms d = js_mul (js_mul (js_mul (js_mul d 24) 60) 60) 1000"

subsection \<open>Strings and arrays\<close>

text \<open>Decimal rendering of a non-negative integer, as a template literal prints it.\<close>

fun show_nat :: "nat \<Rightarrow> string" where
  "show_nat n = (if n < 10 then [''0123456789'' ! n]
                 else show_nat (n div 10) @ [''0123456789'' ! (n mod 10)])"

declare show_nat.simps [simp del]

definition show_int :: "int \<Rightarrow> string" where
  "show_int i = (if i < 0 then ''-'' @ show_nat (nat (- i)) else show_nat (nat i))"

text \<open>\<^verbatim>\<open>Math.round\<close> rounds half up.\<close>

definition js_round :: "real \<Rightarrow> int" where
  "js_round x = \<lfloor>x + 1 / 2\<rfloor>"

text \<open>Array indexing: out of range gives \<^verbatim>\<open>undefined\<close>.\<close>

definition js_index :: "'a list \<Rightarrow> int \<Rightarrow> 'a option" where
  "js_index xs i = (if 0 \<le> i \<and> i < int (length xs) then Some (xs ! nat i) else None)"

text \<open>\<^verbatim>\<open>s.lastIndexOf(c)\<close>: the index of the last occurrence, \<open>-1\<close> when there is none.\<close>

fun lastIndexOf_from :: "char \<Rightarrow> string \<Rightarrow> int \<Rightarrow> int \<Rightarrow> int" where
  "lastIndexOf_from c [] i best = best"
| "lastIndexOf_from c (x # xs) i best = lastIndexOf_from c xs (i + 1) (if x = c then i else best)"

definition lastIndexOf :: "string \<Rightarrow> char \<Rightarrow> int" where
  "lastIndexOf s c = lastIndexOf_from c s 0 (- 1)"

text \<open>\<^verbatim>\<open>s.slice(0, e)\<close>: a negative end counts from the end of the string.\<close>

definition slice_to :: "string \<Rightarrow> int \<Rightarrow> string" where
  "slice_to s e = (if e < 0 then take (nat (int (length s) + e)) s else take (nat e) s)"

section \<open>Persisted state\<close>

datatype log_kind = Success | Error

text \<open>The worker's result object \<^verbatim>\<open>{success, keyword, watchSeconds, videosWatched, error}\<close>.
  A missing property is \<open>None\<close>; a missing \<^verbatim>\<open>success\<close> is falsy.  \<open>res_runId\<close> stands for a
  run id a sender might put on the object: \<^verbatim>\<open>runSession\<close> sets none and no handler reads one.\<close>

record session_result =
  res_success :: bool
  res_keyword :: "string option"
  res_watchSeconds :: "real option"
  res_videosWatched :: "nat option"
  res_error :: "string option"
  res_runId :: "string option"

text \<open>A log holds two shapes of entry: \<^verbatim>\<open>{kind, message, details, time}\<close>, and a result
  object to which the second result listener has added \<^verbatim>\<open>ts\<close> and \<^verbatim>\<open>tabId\<close>.\<close>

datatype log_entry =
    Entry log_kind string string nat
  | Result session_result nat "nat option"

text \<open>\<^verbatim>\<open>store.currentRun\<close>, written by \<^verbatim>\<open>scheduleAlarmsForRun\<close>.\<close>

record run_meta =
  cr_id :: string
  cr_startTs :: nat
  cr_schedule :: "real list"
  cr_keywords :: "string list"
  cr_createdAt :: nat

text \<open>The keys of \<^verbatim>\<open>chrome.storage.local\<close> the worker uses; \<open>None\<close> is a key that is unset
  or \<^verbatim>\<open>null\<close>.  The key \<^verbatim>\<open>keywords\<close> is the field \<open>stored_keywords\<close>.\<close>

record store =
  isRunning :: "bool option"
  runId :: "string option"
  daysCompleted :: "int option"
  logs :: "log_entry list option"
  stored_keywords :: "string list option"
  startTs :: "nat option"
  immediateMode :: "bool option"
  currentRun :: "run_meta option"

definition truthy_bool :: "bool option \<Rightarrow> bool" where
  "truthy_bool b = (case b of Some True \<Rightarrow> True | _ \<Rightarrow> False)"

definition truthy_str :: "string option \<Rightarrow> bool" where
  "truthy_str s = (case s of Some (c # cs) \<Rightarrow> True | _ \<Rightarrow> False)"

text \<open>\<^verbatim>\<open>s.logs || []\<close>\<close>

definition logs_or_empty :: "store \<Rightarrow> log_entry list" where
  "logs_or_empty st = (case logs st of Some l \<Rightarrow> l | None \<Rightarrow> [])"

text \<open>\<^verbatim>\<open>appendLog\<close> reads the store, prepends the entry to the log it read, cuts the
  array to \<^verbatim>\<open>CONFIG.maxLogs\<close> and writes the key \<^verbatim>\<open>logs\<close>.  \<open>appendLog_onto\<close> is the part after
  \<^verbatim>\<open>await getStore()\<close> has returned a log; \<open>appendLog\<close> is the whole function with nothing
  running between its read and its write.\<close>

definition truncate_logs :: "log_entry list \<Rightarrow> log_entry list" where
  "truncate_logs l = (if length l > maxLogs CONFIG then take (maxLogs CONFIG) l else l)"

definition appendLog_onto :: "log_entry list \<Rightarrow> log_entry \<Rightarrow> store \<Rightarrow> store" where
  "appendLog_onto snapshot entry st = st\<lparr>logs := Some (truncate_logs (entry # snapshot))\<rparr>"

definition appendLog :: "log_entry \<Rightarrow> store \<Rightarrow> store" where
  "appendLog entry st = appendLog_onto (logs_or_empty st) entry st"

definition empty_store :: store where
  "empty_store = \<lparr> isRunning = None, runId = None, daysCompleted = None, logs = None,
     stored_keywords = None, startTs = None, immediateMode = None, currentRun = None \<rparr>"

section \<open>Schedule generation\<close>

text \<open>
  \<^verbatim>\<open>generateSchedule\<close> draws from \<^verbatim>\<open>Math.random()\<close>: per day one draw for the session
  count, one for the initial offset and one after every pushed session for the gap.  The
  draws are the values \<open>rnd 0, rnd 1, ...\<close> in the order the code takes them; \<open>i\<close> is the
  index of the next draw.  The code reads the policy from \<^verbatim>\<open>CONFIG\<close>; \<open>generateSchedule_with\<close>
  takes it as an argument.
\<close>

fun session_loop :: "config \<Rightarrow> (nat \<Rightarrow> real) \<Rightarrow> nat \<Rightarrow> nat \<Rightarrow> real \<Rightarrow> real list" where
  "session_loop c rnd 0 i ts = []"
| "session_loop c rnd (Suc k) i ts =
     ts # session_loop c rnd k (Suc i)
            (js_add ts (rand (rnd i) (hours_ms (minBetweenHours c)) (hours_ms (maxBetweenHours c))))"

definition sessionCount :: "config \<Rightarrow> (nat \<Rightarrow> real) \<Rightarrow> nat \<Rightarrow> nat" where
  "sessionCount c rnd i =
     nat (randInt (rnd i) (real (minSessionsPerDay c)) (real (maxSessionsPerDay c)))"

definition day_first :: "(nat \<Rightarrow> real) \<Rightarrow> real \<Rightarrow> nat \<Rightarrow> nat \<Rightarrow> real" where
  "day_first rnd start day i =
     js_add (js_add start (days_ms (real day))) (rand (rnd (Suc i)) 0 (hours_ms 6))"

text \<open>The outer loop: \<open>n\<close> days are left, \<open>day\<close> is the loop variable.\<close>

fun day_loop :: "config \<Rightarrow> (nat \<Rightarrow> real) \<Rightarrow> real \<Rightarrow> nat \<Rightarrow> nat \<Rightarrow> nat \<Rightarrow> real list" where
  "day_loop c rnd start 0 day i = []"
| "day_loop c rnd start (Suc n) day i =
     session_loop c rnd (sessionCount c rnd i) (i + 2) (day_first rnd start day i)
       @ day_loop c rnd start n (Suc day) (i + 2 + sessionCount c rnd i)"

definition generateSchedule_with :: "config \<Rightarrow> (nat \<Rightarrow> real) \<Rightarrow> real \<Rightarrow> real list" where
  "generateSchedule_with c rnd start = day_loop c rnd start (days c) 0 0"

definition generateSchedule :: "(nat \<Rightarrow> real) \<Rightarrow> real \<Rightarrow> real list" where
  "generateSchedule rnd start = generateSchedule_with CONFIG rnd start"

text \<open>The same loop with the sessions of each day kept apart, to speak about one day.\<close>

fun days_of :: "config \<Rightarrow> (nat \<Rightarrow> real) \<Rightarrow> real \<Rightarrow> nat \<Rightarrow> nat \<Rightarrow> nat \<Rightarrow> real list list" where
  "days_of c rnd start 0 day i = []"
| "days_of c rnd start (Suc n) day i =
     session_loop c rnd (sessionCount c rnd i) (i + 2) (day_first rnd start day i)
       # days_of c rnd start n (Suc day) (i + 2 + sessionCount c rnd i)"

definition schedule_by_day :: "config \<Rightarrow> (nat \<Rightarrow> real) \<Rightarrow> real \<Rightarrow> real list list" where
  "schedule_by_day c rnd start = days_of c rnd start (days c) 0 0"




section \<open>The world: store, alarms, notifications, tabs, messages and timeouts\<close>

record session_params =
  keyword :: string
  params_runId :: "string option"
  params_maxWatchSeconds :: nat

text \<open>A \<^verbatim>\<open>startSession\<close> message sent to a tab.  \<open>callback\<close> holds the \<^verbatim>\<open>keywords\<close> and
  \<^verbatim>\<open>runId\<close> the response callback closes over, when one was passed.\<close>

record sent_message =
  to_tab :: nat
  params :: session_params
  callback :: "(string list \<times> string option) option"

text \<open>A pending \<^verbatim>\<open>setTimeout(() => triggerImmediateSession(keywords, runId), delay)\<close>.\<close>

record pending_timeout =
  delay :: real
  t_keywords :: "string list"
  t_runId :: "string option"

text \<open>Alarms are pairs of name and firing time; of a notification the id is kept.\<close>

record world =
  store :: store
  alarms :: "(string \<times> real) list"
  notifications :: "string list"
  tabs :: "nat list"
  sent :: "sent_message list"
  timeouts :: "pending_timeout list"

definition empty_world :: world where
  "empty_world = \<lparr> store = empty_store, alarms = [], notifications = [], tabs = [],
     sent = [], timeouts = [] \<rparr>"

text \<open>What one dispatch takes from its environment: the \<^verbatim>\<open>Math.random()\<close> draw for the
  keyword, the id of the tab \<^verbatim>\<open>chrome.tabs.create\<close> makes, the text of the error if
  \<^verbatim>\<open>executeScript\<close> throws, and \<^verbatim>\<open>Date.now()\<close>.\<close>

record dispatch_env =
  draw :: real
  tabId :: nat
  inject_error :: "string option"
  now :: nat

text \<open>\<^verbatim>\<open>chrome.alarms.create\<close> replaces an alarm of the same name; \<^verbatim>\<open>clear\<close> removes it.\<close>

definition alarms_clear :: "string \<Rightarrow> (string \<times> real) list \<Rightarrow> (string \<times> real) list" where
  "alarms_clear name as = filter (\<lambda>a. fst a \<noteq> name) as"

definition alarms_create :: "string \<Rightarrow> real \<Rightarrow> (string \<times> real) list \<Rightarrow> (string \<times> real) list" where
  "alarms_create name t as = alarms_clear name as @ [(name, t)]"

section \<open>Starting and stopping a run\<close>

text \<open>\<^verbatim>\<open>userKeywords && userKeywords.length ? userKeywords.slice(0, 20) : CONFIG.defaultKeywords\<close>\<close>

definition chosen_keywords :: "string list option \<Rightarrow> string list" where
  "chosen_keywords userKeywords =
     (case userKeywords of
        Some (k # ks) \<Rightarrow> take 20 (k # ks)
      | _ \<Rightarrow> defaultKeywords CONFIG)"

text \<open>\<^verbatim>\<open>keywords[Math.floor(Math.random() * keywords.length)] || CONFIG.defaultKeywords[0]\<close>\<close>

definition pickKeyword :: "string list \<Rightarrow> real \<Rightarrow> string" where
  "pickKeyword keywords u =
     (case js_index keywords \<lfloor>js_mul u (real (length keywords))\<rfloor> of
        Some (c # cs) \<Rightarrow> c # cs
      | _ \<Rightarrow> defaultKeywords CONFIG ! 0)"

definition session_alarm_prefix :: "string \<Rightarrow> string" where
  "session_alarm_prefix rid = ''session-'' @ rid @ ''-''"

text \<open>\<^verbatim>\<open>cancelRunAlarms\<close>: for every alarm of \<^verbatim>\<open>getAll\<close>, clear it if its name starts with
  \<^verbatim>\<open>session-<runId>-\<close>.\<close>

definition cancelRunAlarms :: "string \<Rightarrow> (string \<times> real) list \<Rightarrow> (string \<times> real) list" where
  "cancelRunAlarms rid as =
     fold (\<lambda>a acc. if prefix (session_alarm_prefix rid) (fst a) then alarms_clear (fst a) acc else acc) as as"

text \<open>\<^verbatim>\<open>scheduleAlarmsForRun\<close>: one alarm per timestamp of the schedule, named
  \<^verbatim>\<open>session-<runId>-<ts>\<close>, then \<^verbatim>\<open>currentRun\<close> is written.  \<open>fmt\<close> is the rendering of a
  number in a template literal.\<close>

definition scheduleAlarmsForRun ::
  "(real \<Rightarrow> string) \<Rightarrow> (nat \<Rightarrow> real) \<Rightarrow> string \<Rightarrow> nat \<Rightarrow> string list \<Rightarrow> nat \<Rightarrow> world \<Rightarrow> world" where
  "scheduleAlarmsForRun fmt rnd rid start kws t w =
     (let schedule = generateSchedule rnd (real start)
      in w\<lparr> alarms := fold (\<lambda>ts. alarms_create (session_alarm_prefix rid @ fmt ts) ts) schedule (alarms w),
             store := (store w)\<lparr> currentRun := Some \<lparr> cr_id = rid, cr_startTs = start,
                          cr_schedule = schedule, cr_keywords = kws, cr_createdAt = t \<rparr> \<rparr> \<rparr>)"

text \<open>\<^verbatim>\<open>startBoost\<close>: when \<^verbatim>\<open>existing.isRunning\<close> is truthy it creates the notification
  \<^verbatim>\<open>ytboost-already\<close> and returns; otherwise it writes the run state, schedules the
  alarms, creates the end alarm and notifies.\<close>

definition startBoost ::
  "(real \<Rightarrow> string) \<Rightarrow> (nat \<Rightarrow> real) \<Rightarrow> nat \<Rightarrow> string list option \<Rightarrow> world \<Rightarrow> world" where
  "startBoost fmt rnd t userKeywords w =
     (if truthy_bool (isRunning (store w))
      then w\<lparr> notifications := ''ytboost-already'' # notifications w \<rparr>
      else
        let rid = ''run-'' @ show_nat t;
            kws = chosen_keywords userKeywords;
            w1 = w\<lparr> store := (store w)\<lparr> isRunning := Some True, runId := Some rid,
                        daysCompleted := Some 0, logs := Some (logs_or_empty (store w)),
                        stored_keywords := Some kws, startTs := Some t \<rparr> \<rparr>;
            w2 = scheduleAlarmsForRun fmt rnd rid t kws t w1;
            w3 = w2\<lparr> alarms := alarms_create (''end-'' @ rid)
                        (js_add (js_add (real t) (days_ms (real (days CONFIG)))) (js_mul 60 1000))
                        (alarms w2) \<rparr>
        in w3\<lparr> notifications := (''ytboost-start-'' @ rid) # notifications w3 \<rparr>)"

text \<open>\<^verbatim>\<open>triggerImmediateSession(keywords, runId)\<close>: a tab is created; if injection works
  the \<^verbatim>\<open>startSession\<close> message is sent with a response callback, otherwise the tab is
  removed, an error is logged and a retry is set for 30 seconds later.\<close>

definition triggerImmediateSession :: "string list \<Rightarrow> string option \<Rightarrow> dispatch_env \<Rightarrow> world \<Rightarrow> world" where
  "triggerImmediateSession kws rid env w =
     (let kw = pickKeyword kws (draw env);
          w1 = w\<lparr> tabs := tabId env # tabs w \<rparr>
      in case inject_error env of
           None \<Rightarrow>
             w1\<lparr> sent := \<lparr> to_tab = tabId env,
                            params = \<lparr> keyword = kw, params_runId = rid,
                                        params_maxWatchSeconds = maxWatchSeconds CONFIG \<rparr>,
                            callback = Some (kws, rid) \<rparr> # sent w1 \<rparr>
         | Some err \<Rightarrow>
             w1\<lparr> tabs := removeAll (tabId env) (tabs w1),
                  store := appendLog (Entry Error ''Session failure'' err (now env)) (store w1),
                  timeouts := \<lparr> delay = 30000, t_keywords = kws, t_runId = rid \<rparr> # timeouts w1 \<rparr>)"

text \<open>The response callback of that message: the next session is set for 30 to 120 seconds
  later.  \<open>u\<close> is the draw of \<^verbatim>\<open>rand(30000, 120000)\<close>.\<close>

definition sendMessage_response :: "string list \<Rightarrow> string option \<Rightarrow> real \<Rightarrow> world \<Rightarrow> world" where
  "sendMessage_response kws rid u w =
     w\<lparr> timeouts := \<lparr> delay = rand u 30000 120000, t_keywords = kws, t_runId = rid \<rparr> # timeouts w \<rparr>"

text \<open>A pending timeout fires: its callback calls \<^verbatim>\<open>triggerImmediateSession\<close>.\<close>

definition timeout_fires :: "pending_timeout \<Rightarrow> dispatch_env \<Rightarrow> world \<Rightarrow> world" where
  "timeout_fires p env w =
     triggerImmediateSession (t_keywords p) (t_runId p) env (w\<lparr> timeouts := remove1 p (timeouts w) \<rparr>)"

text \<open>\<^verbatim>\<open>startImmediateSessions\<close>: writes the run state and triggers the first session.\<close>

definition startImmediateSessions :: "string list option \<Rightarrow> dispatch_env \<Rightarrow> world \<Rightarrow> world" where
  "startImmediateSessions userKeywords env w =
     (let kws = chosen_keywords userKeywords;
          rid = ''immediate-'' @ show_nat (now env);
          w1 = w\<lparr> store := (store w)\<lparr> isRunning := Some True, runId := Some rid,
                      stored_keywords := Some kws, startTs := Some (now env),
                      immediateMode := Some True \<rparr> \<rparr>;
          w2 = w1\<lparr> notifications := (''ytboost-immediate-'' @ rid) # notifications w1 \<rparr>
      in triggerImmediateSession kws (Some rid) env w2)"

text \<open>\<^verbatim>\<open>(store.currentRun && store.currentRun.id) || store.runId\<close>, when truthy.\<close>

definition stop_runId :: "store \<Rightarrow> string option" where
  "stop_runId st =
     (if truthy_str (map_option cr_id (currentRun st)) then map_option cr_id (currentRun st)
      else if truthy_str (runId st) then runId st
      else None)"

definition stopBoost :: "world \<Rightarrow> world" where
  "stopBoost w =
     (let w1 = (case stop_runId (store w) of
                  Some rid \<Rightarrow> w\<lparr> alarms := cancelRunAlarms rid (alarms w) \<rparr>
                | None \<Rightarrow> w);
          w2 = w1\<lparr> store := (store w1)\<lparr> isRunning := Some False, runId := None,
                       currentRun := None, immediateMode := Some False \<rparr> \<rparr>
      in w2\<lparr> notifications := ''ytboost-stopped'' # notifications w2 \<rparr>)"

section \<open>Alarm events\<close>

text \<open>\<^verbatim>\<open>triggerSession(alarmName)\<close>: the keywords are those of \<^verbatim>\<open>store.currentRun\<close>, or the
  defaults; the message has no response callback and nothing is retried.\<close>

definition triggerSession :: "string \<Rightarrow> dispatch_env \<Rightarrow> world \<Rightarrow> world" where
  "triggerSession alarmName env w =
     (let run = currentRun (store w);
          kws = (case run of Some r \<Rightarrow> cr_keywords r | None \<Rightarrow> defaultKeywords CONFIG);
          kw = pickKeyword kws (draw env);
          w1 = w\<lparr> tabs := tabId env # tabs w \<rparr>
      in case inject_error env of
           None \<Rightarrow>
             w1\<lparr> sent := \<lparr> to_tab = tabId env,
                            params = \<lparr> keyword = kw, params_runId = map_option cr_id run,
                                        params_maxWatchSeconds = maxWatchSeconds CONFIG \<rparr>,
                            callback = None \<rparr> # sent w1 \<rparr>
         | Some err \<Rightarrow>
             w1\<lparr> tabs := removeAll (tabId env) (tabs w1),
                  store := appendLog (Entry Error ''Injection failure'' err (now env)) (store w1) \<rparr>)"

text \<open>The run id in a session alarm's name: what follows \<^verbatim>\<open>session-\<close>, up to the last dash.\<close>

definition alarm_runId :: "string \<Rightarrow> string" where
  "alarm_runId name = (let raw = drop 8 name in slice_to raw (lastIndexOf raw CHR ''-''))"

text \<open>The \<^verbatim>\<open>onAlarm\<close> listener.  A session alarm is ignored when the store is not running,
  or holds a truthy run id other than the alarm's.  An end alarm is not compared with
  anything.\<close>

definition onAlarm :: "string \<Rightarrow> dispatch_env \<Rightarrow> world \<Rightarrow> world" where
  "onAlarm name env w =
     (if prefix ''session-'' name then
        (if truthy_bool (isRunning (store w)) then
           (if truthy_str (runId (store w)) \<and> runId (store w) \<noteq> Some (alarm_runId name) then w
            else triggerSession name env w)
         else w)
      else if prefix ''end-'' name then
        w\<lparr> store := (store w)\<lparr> isRunning := Some False, currentRun := None, runId := None \<rparr>,
           notifications := ''ytboost-finished'' # notifications w \<rparr>
      else w)"

section \<open>Result messages\<close>

text \<open>A \<^verbatim>\<open>sessionResult\<close> message: \<^verbatim>\<open>msg.result\<close> and the id of the sending tab.\<close>

record result_msg =
  result :: "session_result option"
  sender_tab :: "nat option"

definition empty_result :: session_result where
  "empty_result = \<lparr> res_success = False, res_keyword = None, res_watchSeconds = None,
     res_videosWatched = None, res_error = None, res_runId = None \<rparr>"

text \<open>The entry the first \<^verbatim>\<open>sessionResult\<close> listener builds from \<^verbatim>\<open>msg.result\<close>.\<close>

definition first_entry :: "session_result \<Rightarrow> nat \<Rightarrow> log_entry" where
  "first_entry r t =
     (if res_success r then
        Entry Success
          (''Session completed: '' @
             show_nat (case res_videosWatched r of Some (Suc n) \<Rightarrow> Suc n | _ \<Rightarrow> 1) @ '' videos watched'')
          (''Keyword: '' @ [CHR 0x22] @ (case res_keyword r of Some k \<Rightarrow> k | None \<Rightarrow> ''undefined'') @
             [CHR 0x22] @ '', Watch time: '' @
             show_int (js_round (case res_watchSeconds r of Some x \<Rightarrow> x | None \<Rightarrow> 0)) @ ''s'')
          t
      else
        Entry Error ''Session failed''
          (case res_error r of Some (c # cs) \<Rightarrow> c # cs | _ \<Rightarrow> ''Unknown error'') t)"

text \<open>The entry the second listener appends: \<^verbatim>\<open>msg.result || {}\<close> with \<^verbatim>\<open>ts\<close> and \<^verbatim>\<open>tabId\<close>.\<close>

definition second_entry :: "result_msg \<Rightarrow> nat \<Rightarrow> log_entry" where
  "second_entry msg t =
     Result (case result msg of Some r \<Rightarrow> r | None \<Rightarrow> empty_result) t (sender_tab msg)"

text \<open>
  Both listeners call \<^verbatim>\<open>appendLog\<close>, and \<^verbatim>\<open>appendLog\<close> awaits the store between reading
  the log and writing it.  A step is the read or the write of one of the two calls;
  \<open>snap1\<close> and \<open>snap2\<close> are the logs the calls have read.  The first listener reads
  \<^verbatim>\<open>result.success\<close> of \<^verbatim>\<open>msg.result\<close> itself and throws when there is no result: then
  its steps do nothing.
\<close>

datatype step = Read1 | Write1 | Read2 | Write2

record appends =
  snap1 :: "log_entry list"
  snap2 :: "log_entry list"
  shared :: store

fun run_step :: "log_entry option \<Rightarrow> log_entry \<Rightarrow> step \<Rightarrow> appends \<Rightarrow> appends" where
  "run_step e1 e2 Read1 a = a\<lparr> snap1 := logs_or_empty (shared a) \<rparr>"
| "run_step e1 e2 Write1 a =
     (case e1 of Some e \<Rightarrow> a\<lparr> shared := appendLog_onto (snap1 a) e (shared a) \<rparr> | None \<Rightarrow> a)"
| "run_step e1 e2 Read2 a = a\<lparr> snap2 := logs_or_empty (shared a) \<rparr>"
| "run_step e1 e2 Write2 a = a\<lparr> shared := appendLog_onto (snap2 a) e2 (shared a) \<rparr>"

definition run_steps :: "log_entry option \<Rightarrow> log_entry \<Rightarrow> step list \<Rightarrow> store \<Rightarrow> store" where
  "run_steps e1 e2 steps st = shared (fold (run_step e1 e2) steps \<lparr> snap1 = [], snap2 = [], shared = st \<rparr>)"

text \<open>
  The orders in which the four steps run.  Both listeners are called while the one message
  is dispatched, the first listener first, and each gets as far as its
  \<^verbatim>\<open>chrome.storage.local.get\<close> before it gives up control: both reads are issued, in this
  order, before either write.  Each write follows when its read has returned: \<open>Write1\<close>
  comes before \<open>Write2\<close> when the store answers the reads in the order they were issued,
  which the storage interface does not promise.
\<close>

definition interleavings :: "step list list" where
  "interleavings = [[Read1, Read2, Write1, Write2], [Read1, Read2, Write2, Write1]]"

text \<open>\<^verbatim>\<open>daysCompleted\<close> as the second listener computes it.  For timestamps below \<open>2^53\<close>
  the difference is exact and the double quotient has the floor of the exact one, so the
  integer division stands for \<^verbatim>\<open>Math.floor((Date.now() - s.startTs) / (24 * 60 * 60 * 1000))\<close>.\<close>

definition days_completed :: "store \<Rightarrow> nat \<Rightarrow> int" where
  "days_completed st t =
     (case startTs st of
        Some (Suc s) \<Rightarrow> min ((int t - int (Suc s)) div (24 * 60 * 60 * 1000) + 1) (int (days CONFIG))
      | _ \<Rightarrow> (case daysCompleted st of Some d \<Rightarrow> d | None \<Rightarrow> 0))"

text \<open>The second listener after its \<^verbatim>\<open>await appendLog(result)\<close>: the tab is closed, the
  store is read, in immediate mode a further session is set for 5 to 15 seconds later,
  \<^verbatim>\<open>daysCompleted\<close> is written and a notification is created.  None of this reads or
  writes the key \<^verbatim>\<open>logs\<close>.\<close>

definition after_append :: "result_msg \<Rightarrow> real \<Rightarrow> nat \<Rightarrow> world \<Rightarrow> world" where
  "after_append msg u t w =
     (let w1 = (case sender_tab msg of
                  Some (Suc n) \<Rightarrow> w\<lparr> tabs := removeAll (Suc n) (tabs w) \<rparr>
                | _ \<Rightarrow> w);
          s = store w1;
          w2 = (case stored_keywords s of
                  Some kws \<Rightarrow>
                    (if truthy_bool (immediateMode s) \<and> truthy_bool (isRunning s)
                     then w1\<lparr> timeouts := \<lparr> delay = js_add (real_of_int \<lfloor>js_mul u 10000\<rfloor>) 5000,
                                               t_keywords = kws, t_runId = runId s \<rparr> # timeouts w1 \<rparr>
                     else w1)
                | None \<Rightarrow> w1);
          w3 = w2\<lparr> store := (store w2)\<lparr> daysCompleted := Some (days_completed s t) \<rparr> \<rparr>
      in w3\<lparr> notifications := (''ytboost-session-'' @ show_nat t) # notifications w3 \<rparr>)"

text \<open>A \<^verbatim>\<open>sessionResult\<close> message arrives and both listeners run, their appends in the
  order \<open>steps\<close>.\<close>

definition onSessionResult :: "step list \<Rightarrow> result_msg \<Rightarrow> real \<Rightarrow> nat \<Rightarrow> world \<Rightarrow> world" where
  "onSessionResult steps msg u t w =
     after_append msg u t
       (w\<lparr> store := run_steps (map_option (\<lambda>r. first_entry r t) (result msg)) (second_entry msg t)
                       steps (store w) \<rparr>)"

section \<open>Worked inputs\<close>

text \<open>Draws for which the schedule is out of order: the first seven (day 0: count, offset
  and five gaps) are \<open>7/8\<close>, all later ones \<open>0\<close>.\<close>

definition late_draws :: "nat \<Rightarrow> real" where
  "late_draws i = (if i < 7 then 7 / 8 else 0)"

text \<open>The largest double below 1 as every draw.\<close>

definition top_draws :: "nat \<Rightarrow> real" where
  "top_draws i = 1 - 1 / 2 ^ 53"

text \<open>A rendering of numbers for the worked inputs: the decimal digits of the integer
  part.  It is what a template literal prints for an integer.  All numbers of the worked
  inputs are doubles, and so are all results of the operations on them.\<close>

definition digits_of :: "real \<Rightarrow> string" where
  "digits_of x = show_int \<lfloor>x\<rfloor>"

text \<open>A dispatch at time \<open>t\<close> that opens tab \<open>tab\<close>, draws \<open>0\<close> and injects without error.\<close>

definition env_at :: "nat \<Rightarrow> nat \<Rightarrow> dispatch_env" where
  "env_at t tab = \<lparr> draw = 0, tabId = tab, inject_error = None, now = t \<rparr>"

text \<open>The world after \<^verbatim>\<open>start\<close> with keywords \<^verbatim>\<open>["a", "b"]\<close> at time 1000 on a fresh
  installation, and the world after \<^verbatim>\<open>startImmediate(["x"])\<close> at time 1000.\<close>

definition scheduled_world :: world where
  "scheduled_world = startBoost digits_of late_draws 1000 (Some [''a'', ''b'']) empty_world"

definition immediate_world :: world where
  "immediate_world = startImmediateSessions (Some [''x'']) (env_at 1000 1) empty_world"

text \<open>A second scheduled run, started at time 2000 after the first was stopped.\<close>

definition second_run_world :: world where
  "second_run_world = startBoost digits_of late_draws 2000 None (stopBoost scheduled_world)"

text \<open>A successful worker result sent from tab 1, and the same result carrying the id of a
  run that is not the active one.\<close>

definition sample_result :: session_result where
  "sample_result = \<lparr> res_success = True, res_keyword = Some ''x tutorial'',
     res_watchSeconds = Some 30, res_videosWatched = Some 3, res_error = None, res_runId = None \<rparr>"

definition sample_msg :: result_msg where
  "sample_msg = \<lparr> result = Some sample_result, sender_tab = Some 1 \<rparr>"

definition stale_msg :: result_msg where
  "stale_msg = \<lparr> result = Some (sample_result\<lparr> res_runId := Some ''run-500'' \<rparr>), sender_tab = Some 1 \<rparr>"

text \<open>The order in which the store answers the reads as they were issued.\<close>

definition overlapped :: "step list" where
  "overlapped = [Read1, Read2, Write1, Write2]"

text \<open>An immediate run: the first session's result arrives at time 2000 and the tab answers
  the \<^verbatim>\<open>startSession\<close> message; then the user stops; then the timeout set by the response
  callback fires.\<close>

definition after_result :: world where
  "after_result = sendMessage_response [''x''] (Some ''immediate-1000'') 0
                    (onSessionResult overlapped sample_msg 0 2000 immediate_world)"

definition after_stop :: world where
  "after_stop = stopBoost after_result"

definition after_timeout :: world where
  "after_timeout = timeout_fires \<lparr> delay = 30000, t_keywords = [''x''], t_runId = Some ''immediate-1000'' \<rparr>
                     (env_at 40000 2) after_stop"

text \<open>The run ids the code makes: \<^verbatim>\<open>run-\<close> or \<^verbatim>\<open>immediate-\<close> followed by the decimal digits of
  \<^verbatim>\<open>Date.now()\<close>.\<close>

definition is_digits :: "string \<Rightarrow> bool" where
  "is_digits s = (s \<noteq> [] \<and> list_all (\<lambda>c. c \<in> set ''0123456789'') s)"

definition generated_runId :: "string \<Rightarrow> bool" where
  "generated_runId rid =
     ((take 4 rid = ''run-'' \<and> is_digits (drop 4 rid))
      \<or> (take 10 rid = ''immediate-'' \<and> is_digits (drop 10 rid)))"


section \<open>Rounding to doubles\<close>

text \<open>The exponent is the floor of the binary logarithm, not below \<open>-1022\<close>, and \<open>ulp\<close> is the
  power of two 52 places below it.\<close>

lemma exponent_up_log:
  "1 \<le> x \<Longrightarrow> exponent_up x = \<lfloor>log 2 x\<rfloor>"
proof (induction x rule: exponent_up.induct)
  case (1 x)
  show ?case
  proof (cases "x < 2")
    case True
    with 1(2) have "\<lfloor>log 2 x\<rfloor> = 0"
      using floor_log_eq_powr_iff [of x 2 0] by simp
    with True show ?thesis by (simp add: exponent_up.simps [of x])
  next
    case False
    then have h: "1 \<le> x / 2" by simp
    from False have p: "0 < x" by simp
    have "log 2 (x / 2) = log 2 x - 1" using p by (simp add: log_divide)
    then have "\<lfloor>log 2 (x / 2)\<rfloor> = \<lfloor>log 2 x\<rfloor> - 1" by simp
    with 1(1) [OF False h] False show ?thesis by (simp add: exponent_up.simps [of x])
  qed
qed

lemma exponent_down_log:
  "0 < x \<Longrightarrow> x < 1 \<Longrightarrow> exponent_down n x = max \<lfloor>log 2 x\<rfloor> (- int n)"
proof (induction n arbitrary: x)
  case 0
  then have "log 2 x < 0" by simp
  then have "\<lfloor>log 2 x\<rfloor> < 0" by linarith
  then show ?case by simp
next
  case (Suc n)
  have l: "log 2 (2 * x) = log 2 x + 1" using Suc.prems by (simp add: log_mult)
  then have f: "\<lfloor>log 2 (2 * x)\<rfloor> = \<lfloor>log 2 x\<rfloor> + 1" by simp
  show ?case
  proof (cases "2 * x < 1")
    case True
    from Suc.IH [of "2 * x"] Suc.prems True f show ?thesis by simp
  next
    case False
    then have "1 \<le> 2 * x" by simp
    then have d: "exponent_down n (2 * x) = 0" by (cases n) simp_all
    from False Suc.prems have "0 \<le> log 2 (2 * x)" by simp
    moreover from Suc.prems have "log 2 (2 * x) < 1" by (simp add: log_less_iff)
    ultimately have "\<lfloor>log 2 (2 * x)\<rfloor> = 0" by linarith
    with f have "\<lfloor>log 2 x\<rfloor> = - 1" by simp
    with d Suc.prems show ?thesis by simp
  qed
qed

lemma exponent_log:
  assumes "x \<noteq> 0"
  shows "exponent x = max \<lfloor>log 2 \<bar>x\<bar>\<rfloor> (- 1022)"
proof (cases "1 \<le> \<bar>x\<bar>")
  case True
  then have "0 \<le> log 2 \<bar>x\<bar>" by simp
  then have "0 \<le> \<lfloor>log 2 \<bar>x\<bar>\<rfloor>" by (simp only: zero_le_floor)
  then have "max \<lfloor>log 2 \<bar>x\<bar>\<rfloor> (- 1022) = \<lfloor>log 2 \<bar>x\<bar>\<rfloor>" by linarith
  with True show ?thesis by (simp only: exponent_def exponent_up_log if_True)
next
  case False
  with assms have "0 < \<bar>x\<bar>" "\<bar>x\<bar> < 1" by simp_all
  from exponent_down_log [OF this, of 1022] False show ?thesis by (simp add: exponent_def)
qed


lemma ulp_powr: "ulp x = 2 powr (real_of_int (exponent x) - 52)"
proof (cases "52 \<le> exponent x")
  case True
  then have "real_of_int (exponent x) - 52 = real (nat (exponent x - 52))" by simp
  then have "2 powr (real_of_int (exponent x) - 52) = 2 ^ nat (exponent x - 52)"
    by (simp only: powr_realpow [of 2, symmetric])
  with True show ?thesis by (simp add: ulp_def)
next
  case False
  then have "real_of_int (exponent x) - 52 = - real (nat (52 - exponent x))" by simp
  then have "2 powr (real_of_int (exponent x) - 52) = 1 / 2 ^ nat (52 - exponent x)"
    by (simp only: powr_minus_divide powr_realpow [of 2, symmetric])
  with False show ?thesis by (simp add: ulp_def)
qed

text \<open>The rounding is monotone and idempotent, and exact on every number with a significand
  of at most 53 bits.\<close>

lemma round_even_of_int [simp]: "round_even (of_int n) = n"
  by (simp add: round_even_def)



lemma ulp_pos: "0 < ulp x"
  by (simp add: ulp_powr)

lemma round_even_0 [simp]: "round_even 0 = 0"
  using round_even_of_int [of 0] by simp

lemma fl53_0 [simp]: "fl53 0 = 0"
  by (simp add: fl53_def)













lemma powr_shift53: "2 powr (a + 53) = 9007199254740992 * 2 powr (a::real)"
proof -
  have "2 powr (a + 53) = 2 powr a * 2 powr 53" by (rule powr_add)
  also have "(2::real) powr 53 = 9007199254740992" by simp
  finally show ?thesis by (simp only: mult.commute)
qed

lemma exponent_le:
  assumes "x \<noteq> 0" "\<bar>x\<bar> < 2 powr real_of_int k" "- 1022 < k"
  shows "exponent x < k"
proof -
  from assms have p: "0 < \<bar>x\<bar>" by simp
  have "2 powr real_of_int \<lfloor>log 2 \<bar>x\<bar>\<rfloor> \<le> \<bar>x\<bar>"
    using floor_log_eq_powr_iff [OF p, of 2 "\<lfloor>log 2 \<bar>x\<bar>\<rfloor>"] by simp
  with assms(2) have "2 powr real_of_int \<lfloor>log 2 \<bar>x\<bar>\<rfloor> < 2 powr real_of_int k" by linarith
  then have "\<lfloor>log 2 \<bar>x\<bar>\<rfloor> < k" by simp
  with assms(3) show ?thesis by (simp add: exponent_log [OF assms(1)])
qed

lemma fl53_exact_lt:
  assumes x: "x = of_int m * 2 powr real_of_int j" and m: "\<bar>m\<bar> < 9007199254740992" and j: "- 1074 \<le> j"
  shows "fl53 x = x"
proof (cases "m = 0")
  case True
  with x show ?thesis by simp
next
  case False
  with x have nz: "x \<noteq> 0" by simp
  have "\<bar>x\<bar> = \<bar>real_of_int m\<bar> * 2 powr real_of_int j" by (simp add: x abs_mult)
  also have "\<dots> < 9007199254740992 * 2 powr real_of_int j"
    using m by (intro mult_strict_right_mono) simp_all
  also have "\<dots> = 2 powr real_of_int (j + 53)"
    using powr_shift53 [of "real_of_int j"] by simp
  finally have "\<bar>x\<bar> < 2 powr real_of_int (j + 53)" .
  from exponent_le [OF nz this] j have e: "exponent x \<le> j + 52" by simp
  define d where "d = nat (j + 52 - exponent x)"
  from e have d: "real_of_int j - (real_of_int (exponent x) - 52) = real d" by (simp add: d_def)
  have "x / ulp x = of_int m * (2 powr real_of_int j / 2 powr (real_of_int (exponent x) - 52))"
    by (simp add: x ulp_powr)
  also have "2 powr real_of_int j / 2 powr (real_of_int (exponent x) - 52) = 2 powr (real d)"
    by (simp only: d flip: powr_diff)
  also have "\<dots> = 2 ^ d" by (simp add: powr_realpow)
  finally have q: "x / ulp x = of_int (m * 2 ^ d)" by simp
  have "fl53 x = of_int (m * 2 ^ d) * ulp x"
    unfolding fl53_def q by (simp only: round_even_of_int)
  also have "\<dots> = (x / ulp x) * ulp x" by (simp only: q)
  also have "\<dots> = x" using ulp_pos [of x] by simp
  finally show ?thesis .
qed

lemma fl53_exact:
  assumes x: "x = of_int m * 2 powr real_of_int j" and m: "\<bar>m\<bar> \<le> 9007199254740992" and j: "- 1074 \<le> j"
  shows "fl53 x = x"
proof (cases "\<bar>m\<bar> < 9007199254740992")
  case True
  from x True j show ?thesis by (rule fl53_exact_lt)
next
  case False
  with m have "m = 9007199254740992 \<or> m = - 9007199254740992" by linarith
  then have "real_of_int m = real_of_int (sgn m) * 2 powr 53"
    by auto
  then have "x = of_int (sgn m) * (2 powr 53 * 2 powr real_of_int j)"
    by (simp add: x)
  also have "2 powr 53 * 2 powr real_of_int j = 2 powr real_of_int (j + 53)"
    using powr_shift53 [of "real_of_int j"] by simp
  finally have x': "x = of_int (sgn m) * 2 powr real_of_int (j + 53)" .
  have "\<bar>sgn m\<bar> < 9007199254740992" by (simp add: sgn_if)
  moreover from j have "- 1074 \<le> j + 53" by simp
  ultimately show ?thesis using x' by (intro fl53_exact_lt)
qed


lemma fl53_of_int:
  assumes "\<bar>m\<bar> \<le> 9007199254740992"
  shows "fl53 (of_int m) = of_int m"
  using fl53_exact [of "of_int m" m 0] assms by simp


lemma fl53_numeral:
  assumes "(numeral n :: real) \<le> 9007199254740992"
  shows "fl53 (numeral n) = numeral n"
proof -
  from assms have "real_of_int (numeral n) \<le> real_of_int 9007199254740992" by simp
  then have "(numeral n :: int) \<le> 9007199254740992" by (simp only: of_int_le_iff)
  then have "\<bar>numeral n :: int\<bar> \<le> 9007199254740992" by simp
  from fl53_of_int [OF this] show ?thesis by simp
qed

lemma fl53_1 [simp]: "fl53 1 = 1"
  using fl53_of_int [of 1] by simp

lemma fl53_eighths:
  assumes "(numeral n :: real) \<le> 9007199254740992"
  shows "fl53 (numeral n / 8) = numeral n / 8"
proof -
  from assms have "real_of_int (numeral n) \<le> real_of_int 9007199254740992" by simp
  then have "(numeral n :: int) \<le> 9007199254740992" by (simp only: of_int_le_iff)
  then have m: "\<bar>numeral n :: int\<bar> \<le> 9007199254740992" by simp
  have "(2::real) powr real_of_int (- 3) = 1 / 8" by (simp add: powr_minus_divide)
  then have "numeral n / 8 = real_of_int (numeral n) * 2 powr real_of_int (- 3)" by simp
  from this m show ?thesis by (rule fl53_exact) simp
qed

lemma fl53_halves:
  assumes "(numeral n :: real) \<le> 9007199254740992"
  shows "fl53 (numeral n / 2) = numeral n / 2"
proof -
  from assms have "real_of_int (numeral n) \<le> real_of_int 9007199254740992" by simp
  then have "(numeral n :: int) \<le> 9007199254740992" by (simp only: of_int_le_iff)
  then have m: "\<bar>numeral n :: int\<bar> \<le> 9007199254740992" by simp
  have "(2::real) powr real_of_int (- 1) = 1 / 2" by (simp add: powr_minus_divide)
  then have "numeral n / 2 = real_of_int (numeral n) * 2 powr real_of_int (- 1)" by simp
  from this m show ?thesis by (rule fl53_exact) simp
qed

lemma fl53_binade:
  assumes "2 powr real_of_int e \<le> \<bar>x\<bar>" "\<bar>x\<bar> < 2 powr (real_of_int e + 1)" "- 1022 \<le> e"
  shows "fl53 x = of_int (round_even (x / 2 powr (real_of_int e - 52))) * 2 powr (real_of_int e - 52)"
proof -
  from assms(1) have p: "0 < \<bar>x\<bar>" using powr_gt_zero [of 2 "real_of_int e"] by linarith
  from assms(1,2) have "\<lfloor>log 2 \<bar>x\<bar>\<rfloor> = e"
    using floor_log_eq_powr_iff [OF p, of 2 e] by simp
  moreover from p have "x \<noteq> 0" by auto
  ultimately have "exponent x = e" using assms(3) by (simp add: exponent_log)
  then show ?thesis by (simp add: fl53_def ulp_powr)
qed

text \<open>The largest double below 1 as the draw: the product rounds to the double below 3, the
  sum to 6.\<close>

lemma r1: "randInt (7 / 8) 3 5 = 5"
  by (simp add: randInt_def rand_def js_add_def js_sub_def js_mul_def fl53_numeral fl53_eighths)

lemma top_product: "fl53 ((1 - 1 / 2 ^ 53) * 3) = 3 - 1 / 2 ^ 51"
proof -
  have "fl53 ((1 - 1 / 2 ^ 53) * 3)
      = of_int (round_even ((1 - 1 / 2 ^ 53) * 3 / 2 powr (real_of_int 1 - 52))) * 2 powr (real_of_int 1 - 52)"
    by (rule fl53_binade) simp_all
  also have "2 powr (real_of_int 1 - 52) = 1 / 2 ^ 51" by (simp add: powr_minus_divide)
  also have "round_even ((1 - 1 / 2 ^ 53) * 3 / (1 / 2 ^ 51)) = 6755399441055743"
    by (simp add: round_even_def)
  finally show ?thesis by simp
qed

lemma top_sum: "fl53 (3 - 1 / 2 ^ 51 + 3) = 6"
proof -
  have "fl53 (3 - 1 / 2 ^ 51 + 3)
      = of_int (round_even ((3 - 1 / 2 ^ 51 + 3) / 2 powr (real_of_int 2 - 52))) * 2 powr (real_of_int 2 - 52)"
    by (rule fl53_binade) simp_all
  also have "2 powr (real_of_int 2 - 52) = 1 / 2 ^ 50" by (simp add: powr_minus_divide)
  also have "round_even ((3 - 1 / 2 ^ 51 + 3) / (1 / 2 ^ 50)) = 6755399441055744"
    by (simp add: round_even_def)
  finally show ?thesis by simp
qed

lemma randInt_top: "randInt (1 - 1 / 2 ^ 53) 3 5 = 6"
proof -
  have a: "js_sub (js_add 5 1) 3 = 3" by (simp add: js_add_def js_sub_def fl53_numeral)
  have b: "js_mul (1 - 1 / 2 ^ 53) 3 = 3 - 1 / 2 ^ 51" by (simp only: js_mul_def top_product)
  have c: "js_add (3 - 1 / 2 ^ 51) 3 = 6" by (simp only: js_add_def top_sum)
  show ?thesis unfolding randInt_def rand_def a b c by simp
qed


section \<open>The log is capped and newest first\<close>

lemma truncate_logs_take: "truncate_logs l = take (maxLogs CONFIG) l"
  by (simp add: truncate_logs_def)

lemma logs_appendLog: "logs_or_empty (appendLog e st) = take (maxLogs CONFIG) (e # logs_or_empty st)"
  by (simp add: appendLog_def appendLog_onto_def truncate_logs_take logs_or_empty_def)

lemma take_append_take: "take n (xs @ take n ys) = take n (xs @ ys)"
  by (induction xs arbitrary: n) (auto simp: take_Cons split: nat.splits)

lemma logs_fold_appendLog:
  "logs_or_empty (fold appendLog es st) =
     (if es = [] then logs_or_empty st else take (maxLogs CONFIG) (rev es @ logs_or_empty st))"
proof (induction es arbitrary: st)
  case Nil
  show ?case by simp
next
  case (Cons e es)
  have "take (maxLogs CONFIG) (rev es @ take (maxLogs CONFIG) (e # logs_or_empty st)) =
        take (maxLogs CONFIG) (rev es @ e # logs_or_empty st)"
    by (rule take_append_take)
  then show ?case
    by (simp add: Cons.IH logs_appendLog)
qed

lemma logs_appendLog_Some: "logs (appendLog e st) = Some (logs_or_empty (appendLog e st))"
  by (simp add: appendLog_def appendLog_onto_def logs_or_empty_def)

lemma logs_fold_Some:
  "es \<noteq> [] \<Longrightarrow> logs (fold appendLog es st) = Some (logs_or_empty (fold appendLog es st))"
  by (cases es rule: rev_cases) (simp_all add: logs_appendLog_Some)

text \<open>
  Claim C8.  Whatever the log was, after \<open>maxLogs + k\<close> appends made one after the other
  the stored log holds exactly \<open>maxLogs\<close> entries, newest first, and they are the last
  \<open>maxLogs\<close> entries appended (\<open>es\<close> lists the appended entries oldest first, so these are
  \<open>drop k es\<close> reversed).  After each of the appends of the sequence the log is no longer
  than \<open>maxLogs\<close>.
\<close>

theorem appendLog_keeps_newest:
  assumes len: "length es = maxLogs CONFIG + k"
  shows "logs (fold appendLog es st) = Some (rev (drop k es))
       \<and> length (rev (drop k es)) = maxLogs CONFIG
       \<and> (\<forall>n. length (logs_or_empty (fold appendLog (take (Suc n) es) st)) \<le> maxLogs CONFIG)"
proof -
  have m: "maxLogs CONFIG = 50" by (simp add: CONFIG_def)
  from len m have ne: "es \<noteq> []" by auto
  have "take (maxLogs CONFIG) (rev es @ logs_or_empty st) = take (maxLogs CONFIG) (rev es)"
    using len by simp
  also have "\<dots> = rev (drop k es)"
    using len by (simp add: take_rev)
  finally have "logs_or_empty (fold appendLog es st) = rev (drop k es)"
    using ne by (simp add: logs_fold_appendLog)
  then have a: "logs (fold appendLog es st) = Some (rev (drop k es))"
    using logs_fold_Some [OF ne, of st] by simp
  have b: "length (rev (drop k es)) = maxLogs CONFIG"
    using len by simp
  have c: "length (logs_or_empty (fold appendLog (take (Suc n) es) st)) \<le> maxLogs CONFIG" for n
    using ne by (simp add: logs_fold_appendLog)
  from a b c show ?thesis by blast
qed

text \<open>Fifty-one appends to the empty store: the first entry appended is the one evicted.\<close>

theorem appendLog_keeps_newest_witness:
  "length (map (Entry Success [] []) [0..<51]) = maxLogs CONFIG + 1
   \<and> logs (fold appendLog (map (Entry Success [] []) [0..<51]) empty_store)
       = Some (rev (drop 1 (map (Entry Success [] []) [0..<51])))"
proof -
  have h: "length (map (Entry Success [] []) [0..<51]) = maxLogs CONFIG + 1"
    by (simp add: CONFIG_def)
  from appendLog_keeps_newest [OF h, of empty_store] h show ?thesis by blast
qed


section \<open>The generated schedule\<close>












text \<open>The count can be one above the maximum: at the largest draw the sum rounds up to
  \<open>max + 1\<close>.\<close>

lemma sessionCount_above_max: "sessionCount CONFIG top_draws 0 = 6"
proof -
  have "sessionCount CONFIG top_draws 0 = nat (randInt (1 - 1 / 2 ^ 53) 3 5)"
    by (simp add: sessionCount_def CONFIG_def top_draws_def)
  also have "\<dots> = 6" by (simp only: randInt_top)
  finally show ?thesis .
qed

lemma length_session_loop: "length (session_loop c rnd k i ts) = k"
  by (induction k arbitrary: i ts) auto












text \<open>The worked schedules, evaluated.\<close>

lemmas js_eval = js_add_def js_sub_def js_mul_def hours_ms_def days_ms_def rand_def randInt_def
  fl53_numeral fl53_eighths

lemma session_loop_step:
  "0 < k \<Longrightarrow> session_loop c rnd k i ts =
     ts # session_loop c rnd (k - 1) (i + 1)
            (js_add ts (rand (rnd i) (hours_ms (minBetweenHours c)) (hours_ms (maxBetweenHours c))))"
  by (cases k) simp_all

lemma day_loop_step:
  "0 < n \<Longrightarrow> day_loop c rnd start n day i =
     session_loop c rnd (sessionCount c rnd i) (i + 2) (day_first rnd start day i)
       @ day_loop c rnd start (n - 1) (day + 1) (i + 2 + sessionCount c rnd i)"
  by (cases n) simp_all

lemma days_of_step:
  "0 < n \<Longrightarrow> days_of c rnd start n day i =
     session_loop c rnd (sessionCount c rnd i) (i + 2) (day_first rnd start day i)
       # days_of c rnd start (n - 1) (day + 1) (i + 2 + sessionCount c rnd i)"
  by (cases n) simp_all

lemma CONFIG_fields:
  "days CONFIG = 7" "minSessionsPerDay CONFIG = 3" "maxSessionsPerDay CONFIG = 5"
  "minBetweenHours CONFIG = 2" "maxBetweenHours CONFIG = 6" "maxWatchSeconds CONFIG = 900"
  "maxLogs CONFIG = 50"
  by (simp_all add: CONFIG_def)

lemma gap_late: "rand (7 / 8) (hours_ms 2) (hours_ms 6) = 19800000"
  by (simp add: js_eval)

lemma gap_zero: "rand 0 (hours_ms 2) (hours_ms 6) = 7200000"
  by (simp add: js_eval)

lemma count_late: "sessionCount CONFIG late_draws 0 = 5"
  by (simp add: sessionCount_def CONFIG_def late_draws_def js_eval)

lemma count_zero: "7 \<le> i \<Longrightarrow> sessionCount CONFIG late_draws i = 3"
  by (simp add: sessionCount_def CONFIG_def late_draws_def js_eval)




lemma schedule_at_1000:
  "generateSchedule late_draws 1000 =
    [18901000, 38701000, 58501000, 78301000, 98101000, 86401000, 93601000,
     100801000, 172801000, 180001000, 187201000, 259201000, 266401000,
     273601000, 345601000, 352801000, 360001000, 432001000, 439201000,
     446401000, 518401000, 525601000, 532801000]"
  by (simp add: generateSchedule_def generateSchedule_with_def CONFIG_fields day_loop_step
      count_late count_zero session_loop_step day_first_def late_draws_def js_eval)



text \<open>The count of a day is not within the policy either: at the largest draw the day has
  six sessions.\<close>

lemma day_of_six_sessions:
  "length (schedule_by_day CONFIG top_draws 0 ! 0) = 6"
  by (simp add: schedule_by_day_def CONFIG_fields days_of_step length_session_loop
      sessionCount_above_max)

section \<open>Stopping a run\<close>

text \<open>The worked scheduled run, evaluated.\<close>

lemma store_scheduled_world:
  "store scheduled_world =
     \<lparr> isRunning = Some True, runId = Some ''run-1000'', daysCompleted = Some 0, logs = Some [],
       stored_keywords = Some [''a'', ''b''], startTs = Some 1000, immediateMode = None,
       currentRun = Some \<lparr> cr_id = ''run-1000'', cr_startTs = 1000,
         cr_schedule = generateSchedule late_draws 1000, cr_keywords = [''a'', ''b''],
         cr_createdAt = 1000 \<rparr> \<rparr>"
  by (simp add: scheduled_world_def startBoost_def scheduleAlarmsForRun_def Let_def empty_world_def
      empty_store_def truthy_bool_def chosen_keywords_def logs_or_empty_def show_nat.simps)

lemma alarms_scheduled_world:
  "alarms scheduled_world =
     map (\<lambda>ts. (''session-run-1000-'' @ digits_of ts, ts)) (generateSchedule late_draws 1000)
       @ [(''end-run-1000'', 604861000)]"
  by (simp add: scheduled_world_def startBoost_def scheduleAlarmsForRun_def Let_def empty_world_def
      empty_store_def truthy_bool_def chosen_keywords_def logs_or_empty_def show_nat.simps
      schedule_at_1000 alarms_create_def alarms_clear_def session_alarm_prefix_def digits_of_def
      show_int_def CONFIG_fields js_eval)

lemma fold_clear:
  "fold (\<lambda>a acc. if P (fst a) then alarms_clear (fst a) acc else acc) xs acc =
     filter (\<lambda>b. \<not> (P (fst b) \<and> fst b \<in> fst ` set xs)) acc"
proof (induction xs arbitrary: acc)
  case Nil
  show ?case by simp
next
  case (Cons x xs)
  show ?case
    by (auto simp: Cons.IH alarms_clear_def intro!: filter_cong)
qed

lemma cancelRunAlarms_filter:
  "cancelRunAlarms rid as = filter (\<lambda>a. \<not> prefix (session_alarm_prefix rid) (fst a)) as"
  unfolding cancelRunAlarms_def fold_clear
  by (rule filter_cong) auto

text \<open>Run ids of the shape the code makes do not collide: the session alarms of one are
  not matched by the prefix of another.\<close>

lemma digit_char: "k < 10 \<Longrightarrow> ''0123456789'' ! k \<in> set ''0123456789''"
  by (rule nth_mem) simp

lemma is_digits_show_nat: "is_digits (show_nat n)"
proof (induction n rule: show_nat.induct)
  case (1 n)
  show ?case
  proof (cases "n < 10")
    case True
    with digit_char [of n] show ?thesis
      by (subst show_nat.simps) (simp add: is_digits_def del: set_simps)
  next
    case False
    have "n mod 10 < 10" by simp
    with digit_char [of "n mod 10"] "1.IH" False show ?thesis
      by (subst show_nat.simps) (simp add: is_digits_def del: set_simps)
  qed
qed

lemma generated_runId_start: "generated_runId (''run-'' @ show_nat t)"
  by (simp add: generated_runId_def is_digits_show_nat)

lemma generated_runId_immediate: "generated_runId (''immediate-'' @ show_nat t)"
  by (simp add: generated_runId_def is_digits_show_nat)

lemma dash_split:
  assumes "CHR ''-'' \<notin> set xs" "CHR ''-'' \<notin> set ys" "prefix (xs @ CHR ''-'' # r) (ys @ CHR ''-'' # r')"
  shows "xs = ys"
  using assms
proof (induction xs arbitrary: ys)
  case Nil
  then show ?case by (cases ys) auto
next
  case (Cons x xs)
  then show ?case by (cases ys) auto
qed

lemma dash_not_digit: "CHR ''-'' \<notin> set ''0123456789''"
  by simp

lemma is_digits_no_dash: "is_digits s \<Longrightarrow> CHR ''-'' \<notin> set s"
  unfolding is_digits_def list_all_iff using dash_not_digit by blast

lemma generated_cases:
  assumes "generated_runId rid"
  obtains (run) ds where "rid = ''run-'' @ ds" "is_digits ds"
        | (immediate) ds where "rid = ''immediate-'' @ ds" "is_digits ds"
proof -
  from assms consider (a) "take 4 rid = ''run-''" "is_digits (drop 4 rid)"
    | (b) "take 10 rid = ''immediate-''" "is_digits (drop 10 rid)"
    unfolding generated_runId_def by blast
  then show thesis
  proof cases
    case a
    have "take 4 rid @ drop 4 rid = rid" by (rule append_take_drop_id)
    with a(1) have "rid = ''run-'' @ drop 4 rid" by (simp only:)
    from this a(2) show thesis by (rule run)
  next
    case b
    have "take 10 rid @ drop 10 rid = rid" by (rule append_take_drop_id)
    with b(1) have "rid = ''immediate-'' @ drop 10 rid" by (simp only:)
    from this b(2) show thesis by (rule immediate)
  qed
qed

lemma digits_prefix_eq:
  assumes "is_digits ds" "is_digits ds'" "prefix (p @ ds @ ''-'') (p @ ds' @ ''-'' @ ts)"
  shows "ds = ds'"
proof -
  from assms(3) have "prefix (ds @ CHR ''-'' # []) (ds' @ CHR ''-'' # ts)" by simp
  with assms(1,2) show ?thesis using dash_split is_digits_no_dash by blast
qed

lemma session_prefix_distinct:
  assumes "generated_runId rid" "generated_runId rid'" "rid' \<noteq> rid"
  shows "\<not> prefix (session_alarm_prefix rid) (session_alarm_prefix rid' @ ts)"
proof
  assume p: "prefix (session_alarm_prefix rid) (session_alarm_prefix rid' @ ts)"
  from assms(1) show False
  proof (cases rule: generated_cases)
    case (run ds)
    note r = this
    from assms(2) show False
    proof (cases rule: generated_cases)
      case (run ds')
      from p r(1) run(1) have "prefix (''session-run-'' @ ds @ ''-'') (''session-run-'' @ ds' @ ''-'' @ ts)"
        by (simp add: session_alarm_prefix_def)
      with r(2) run(2) have "ds = ds'" by (rule digits_prefix_eq)
      with r(1) run(1) assms(3) show False by simp
    next
      case (immediate ds')
      with p r(1) show False by (simp add: session_alarm_prefix_def)
    qed
  next
    case (immediate ds)
    note r = this
    from assms(2) show False
    proof (cases rule: generated_cases)
      case (run ds')
      with p r(1) show False by (simp add: session_alarm_prefix_def)
    next
      case (immediate ds')
      from p r(1) immediate(1)
      have "prefix (''session-immediate-'' @ ds @ ''-'') (''session-immediate-'' @ ds' @ ''-'' @ ts)"
        by (simp add: session_alarm_prefix_def)
      with r(2) immediate(2) have "ds = ds'" by (rule digits_prefix_eq)
      with r(1) immediate(1) assms(3) show False by simp
    qed
  qed
qed


text \<open>
  Claim C3, as amended.  Let \<open>rid\<close> be the run id \<^verbatim>\<open>stopBoost\<close> resolves (\<^verbatim>\<open>currentRun.id\<close> if
  truthy, else \<^verbatim>\<open>runId\<close>).  Then \<^verbatim>\<open>stopBoost\<close> removes exactly the alarms whose name starts
  with \<^verbatim>\<open>session-<rid>-\<close>: no session alarm of the run is left, every other alarm stays, and
  the end alarm \<^verbatim>\<open>end-<rid>\<close> is still registered after the stop if it was before.  The
  session alarms of any other run id stay as they were, for run ids of the shape the code
  makes.
\<close>

theorem stopBoost_cancels_session_alarms:
  assumes "stop_runId (store w) = Some rid"
  shows "alarms (stopBoost w) = filter (\<lambda>a. \<not> prefix (session_alarm_prefix rid) (fst a)) (alarms w)
       \<and> (\<forall>ts t. (session_alarm_prefix rid @ ts, t) \<notin> set (alarms (stopBoost w)))
       \<and> (\<forall>t. ((''end-'' @ rid, t) \<in> set (alarms (stopBoost w))) = ((''end-'' @ rid, t) \<in> set (alarms w)))
       \<and> (\<forall>rid' ts t. generated_runId rid \<longrightarrow> generated_runId rid' \<longrightarrow> rid' \<noteq> rid \<longrightarrow>
             ((session_alarm_prefix rid' @ ts, t) \<in> set (alarms (stopBoost w)))
               = ((session_alarm_prefix rid' @ ts, t) \<in> set (alarms w)))"
proof -
  have a: "alarms (stopBoost w) = filter (\<lambda>a. \<not> prefix (session_alarm_prefix rid) (fst a)) (alarms w)"
    using assms by (simp add: stopBoost_def Let_def cancelRunAlarms_filter)
  have b: "\<not> prefix (session_alarm_prefix rid) (''end-'' @ rid)"
    by (simp add: session_alarm_prefix_def)
  have c: "\<forall>rid' ts t. generated_runId rid \<longrightarrow> generated_runId rid' \<longrightarrow> rid' \<noteq> rid \<longrightarrow>
             ((session_alarm_prefix rid' @ ts, t) \<in> set (alarms (stopBoost w)))
               = ((session_alarm_prefix rid' @ ts, t) \<in> set (alarms w))"
    using session_prefix_distinct by (simp add: a)
  from a b c show ?thesis by simp
qed

text \<open>
  Claim C3 as stated fails for the end alarm: after \<^verbatim>\<open>start\<close> at time 1000 and \<^verbatim>\<open>stop\<close>, all
  23 session alarms are gone and \<^verbatim>\<open>end-run-1000\<close> is still registered.
\<close>

theorem stopBoost_leaves_end_alarm:
  "runId (store scheduled_world) = Some ''run-1000''
   \<and> isRunning (store scheduled_world) = Some True
   \<and> alarms (stopBoost scheduled_world) = [(''end-run-1000'', 604861000)]"
  by (simp add: store_scheduled_world alarms_scheduled_world stopBoost_def stop_runId_def truthy_str_def
      Let_def cancelRunAlarms_filter session_alarm_prefix_def)

text \<open>The same run with a session alarm of a run \<^verbatim>\<open>run-500\<close> also registered: the first
  session alarm of \<^verbatim>\<open>run-1000\<close> is cancelled, its end alarm and the other run's alarm are not.\<close>

theorem stopBoost_cancels_session_alarms_witness:
  "stop_runId (store (scheduled_world\<lparr> alarms := (''session-run-500-7'', 7) # alarms scheduled_world \<rparr>))
     = Some ''run-1000''
   \<and> generated_runId ''run-1000'' \<and> generated_runId ''run-500''
   \<and> (''session-run-1000-18901000'', 18901000) \<in> set (alarms scheduled_world)
   \<and> (''session-run-1000-18901000'', 18901000)
        \<notin> set (alarms (stopBoost (scheduled_world\<lparr> alarms := (''session-run-500-7'', 7) # alarms scheduled_world \<rparr>)))
   \<and> (''end-run-1000'', 604861000)
        \<in> set (alarms (stopBoost (scheduled_world\<lparr> alarms := (''session-run-500-7'', 7) # alarms scheduled_world \<rparr>)))
   \<and> (''session-run-500-7'', 7)
        \<in> set (alarms (stopBoost (scheduled_world\<lparr> alarms := (''session-run-500-7'', 7) # alarms scheduled_world \<rparr>)))"
proof -
  let ?w = "scheduled_world\<lparr> alarms := (''session-run-500-7'', 7) # alarms scheduled_world \<rparr>"
  have h: "stop_runId (store ?w) = Some ''run-1000''"
    by (simp add: store_scheduled_world stop_runId_def truthy_str_def)
  have g1: "generated_runId ''run-1000''"
    using generated_runId_start [of 1000] by (simp add: show_nat.simps)
  have g2: "generated_runId ''run-500''"
    using generated_runId_start [of 500] by (simp add: show_nat.simps)
  have m: "(''session-run-1000-18901000'', 18901000) \<in> set (alarms scheduled_world)"
    by (simp add: alarms_scheduled_world schedule_at_1000 digits_of_def show_int_def show_nat.simps)
  have e: "(''end-run-1000'', 604861000) \<in> set (alarms ?w)"
    by (simp add: alarms_scheduled_world)
  have o: "(''session-run-500-7'', 7) \<in> set (alarms ?w)"
    by simp
  note t = stopBoost_cancels_session_alarms [OF h]
  from t have "(session_alarm_prefix ''run-1000'' @ ''18901000'', 18901000) \<notin> set (alarms (stopBoost ?w))"
    by blast
  then have n: "(''session-run-1000-18901000'', 18901000) \<notin> set (alarms (stopBoost ?w))"
    by (simp add: session_alarm_prefix_def)
  from t have "((''end-'' @ ''run-1000'', 604861000) \<in> set (alarms (stopBoost ?w)))
          = ((''end-'' @ ''run-1000'', 604861000) \<in> set (alarms ?w))"
    by blast
  with e have k: "(''end-run-1000'', 604861000) \<in> set (alarms (stopBoost ?w))"
    by simp
  have d: "''run-500'' \<noteq> ''run-1000''" by simp
  from t g1 g2 d have "((session_alarm_prefix ''run-500'' @ ''7'', 7) \<in> set (alarms (stopBoost ?w)))
          = ((session_alarm_prefix ''run-500'' @ ''7'', 7) \<in> set (alarms ?w))"
    by blast
  with o have s: "(''session-run-500-7'', 7) \<in> set (alarms (stopBoost ?w))"
    by (simp add: session_alarm_prefix_def)
  from h g1 g2 m n k s show ?thesis by blast
qed


section \<open>Starting while a run is active\<close>

text \<open>
  Claim C2.  When the store says a run is active, \<^verbatim>\<open>startBoost\<close> takes its already-running
  branch: it creates the notification \<^verbatim>\<open>ytboost-already\<close> and returns.  The store is the
  same (\<^verbatim>\<open>isRunning\<close> is still true, the run id is the original one), and no alarm,
  timeout, tab or message is added.
\<close>

theorem startBoost_already_running:
  assumes "isRunning (store w) = Some True"
  shows "store (startBoost fmt rnd t userKeywords w) = store w
       \<and> isRunning (store (startBoost fmt rnd t userKeywords w)) = Some True
       \<and> runId (store (startBoost fmt rnd t userKeywords w)) = runId (store w)
       \<and> alarms (startBoost fmt rnd t userKeywords w) = alarms w
       \<and> timeouts (startBoost fmt rnd t userKeywords w) = timeouts w
       \<and> sent (startBoost fmt rnd t userKeywords w) = sent w
       \<and> tabs (startBoost fmt rnd t userKeywords w) = tabs w
       \<and> notifications (startBoost fmt rnd t userKeywords w) = ''ytboost-already'' # notifications w"
  using assms by (simp add: startBoost_def truthy_bool_def)

text \<open>A second \<^verbatim>\<open>start\<close> at time 2000 on the world the first \<^verbatim>\<open>start\<close> left.\<close>

theorem startBoost_already_running_witness:
  "isRunning (store scheduled_world) = Some True
   \<and> runId (store (startBoost digits_of late_draws 2000 (Some [''c'']) scheduled_world)) = Some ''run-1000''
   \<and> alarms (startBoost digits_of late_draws 2000 (Some [''c'']) scheduled_world) = alarms scheduled_world
   \<and> notifications (startBoost digits_of late_draws 2000 (Some [''c'']) scheduled_world)
        = ''ytboost-already'' # notifications scheduled_world"
proof -
  have h: "isRunning (store scheduled_world) = Some True"
    by (simp add: store_scheduled_world)
  have r: "runId (store scheduled_world) = Some ''run-1000''"
    by (simp add: store_scheduled_world)
  from startBoost_already_running [OF h, of digits_of late_draws 2000 "Some [''c'']"] h r
  show ?thesis by simp
qed


section \<open>The keyword of a dispatch\<close>

lemma pickKeyword_nonempty: "pickKeyword kws u \<noteq> []"
  by (simp add: pickKeyword_def CONFIG_def split: option.splits list.splits)

lemma pick_empty: "pickKeyword [] u = ''popular tech news''"
  by (simp add: pickKeyword_def js_index_def js_mul_def CONFIG_def)

text \<open>The selection is the element the draw indexes, when there is one and it is not the
  empty string, and the first default keyword otherwise.\<close>

lemma pickKeyword_selects:
  "pickKeyword kws u =
     (if 0 \<le> \<lfloor>js_mul u (real (length kws))\<rfloor> \<and> \<lfloor>js_mul u (real (length kws))\<rfloor> < int (length kws)
         \<and> kws ! nat \<lfloor>js_mul u (real (length kws))\<rfloor> \<noteq> []
      then kws ! nat \<lfloor>js_mul u (real (length kws))\<rfloor> else ''popular tech news'')"
  by (simp add: pickKeyword_def js_index_def CONFIG_def split: list.splits)

lemma index_three_quarters: "\<lfloor>js_mul (3 / 4) (real (length [''b'', '''']))\<rfloor> = 1"
  by (simp add: js_mul_def fl53_halves)

lemma index_quarter: "\<lfloor>js_mul (1 / 4) (real (length [''b'', '''']))\<rfloor> = 0"
proof -
  have "(1 / 2 :: real) = of_int 1 * 2 powr real_of_int (- 1)" by (simp add: powr_minus_divide)
  from this have h: "fl53 (1 / 2) = 1 / 2" by (rule fl53_exact) simp_all
  show ?thesis by (simp add: js_mul_def h)
qed

text \<open>
  Claim C10.  For every keyword list and every draw, the keyword of a dispatch is the
  element of the list at index \<^verbatim>\<open>Math.floor(Math.random() * keywords.length)\<close> when that index
  is in the list and the element is not the empty string, and otherwise -- the empty list,
  an empty selected string -- the first default keyword \<^verbatim>\<open>popular tech news\<close>; it is never the
  empty string.  When the injection succeeds, \<^verbatim>\<open>triggerImmediateSession\<close> and \<^verbatim>\<open>triggerSession\<close>
  send one \<^verbatim>\<open>startSession\<close> message, and its keyword is this selection from the keywords of
  the call, respectively of \<^verbatim>\<open>currentRun\<close> (the defaults when there is no current run); when
  it fails they send nothing.
\<close>

theorem startSession_keyword_nonempty:
  "pickKeyword kws u \<noteq> []
   \<and> pickKeyword kws u =
       (if 0 \<le> \<lfloor>js_mul u (real (length kws))\<rfloor> \<and> \<lfloor>js_mul u (real (length kws))\<rfloor> < int (length kws)
           \<and> kws ! nat \<lfloor>js_mul u (real (length kws))\<rfloor> \<noteq> []
        then kws ! nat \<lfloor>js_mul u (real (length kws))\<rfloor> else ''popular tech news'')
   \<and> sent (triggerImmediateSession kws rid env w) =
       (if inject_error env = None
        then [\<lparr> to_tab = tabId env,
                 params = \<lparr> keyword = pickKeyword kws (draw env), params_runId = rid,
                             params_maxWatchSeconds = 900 \<rparr>,
                 callback = Some (kws, rid) \<rparr>]
        else []) @ sent w
   \<and> sent (triggerSession name env w) =
       (if inject_error env = None
        then [\<lparr> to_tab = tabId env,
                 params = \<lparr> keyword = pickKeyword (case currentRun (store w) of
                                                     Some r \<Rightarrow> cr_keywords r
                                                   | None \<Rightarrow> defaultKeywords CONFIG) (draw env),
                             params_runId = map_option cr_id (currentRun (store w)),
                             params_maxWatchSeconds = 900 \<rparr>,
                 callback = None \<rparr>]
        else []) @ sent w"
proof -
  have a: "sent (triggerImmediateSession kws rid env w) =
       (if inject_error env = None
        then [\<lparr> to_tab = tabId env,
                 params = \<lparr> keyword = pickKeyword kws (draw env), params_runId = rid,
                             params_maxWatchSeconds = 900 \<rparr>,
                 callback = Some (kws, rid) \<rparr>]
        else []) @ sent w"
    by (simp add: triggerImmediateSession_def Let_def CONFIG_fields split: option.splits)
  have b: "sent (triggerSession name env w) =
       (if inject_error env = None
        then [\<lparr> to_tab = tabId env,
                 params = \<lparr> keyword = pickKeyword (case currentRun (store w) of
                                                     Some r \<Rightarrow> cr_keywords r
                                                   | None \<Rightarrow> defaultKeywords CONFIG) (draw env),
                             params_runId = map_option cr_id (currentRun (store w)),
                             params_maxWatchSeconds = 900 \<rparr>,
                 callback = None \<rparr>]
        else []) @ sent w"
    by (simp add: triggerSession_def Let_def CONFIG_fields split: option.splits)
  from pickKeyword_nonempty [of kws u] pickKeyword_selects [of kws u] a b show ?thesis
    by (intro conjI)
qed

text \<open>The list \<^verbatim>\<open>["b", ""]\<close>: the draw \<open>3/4\<close> selects the empty string and gives the default
  keyword, in a scheduled dispatch too; the draw \<open>1/4\<close> selects \<^verbatim>\<open>b\<close>.  The empty list in
  immediate mode gives the default keyword.\<close>

theorem startSession_keyword_nonempty_witness:
  "pickKeyword [''b'', ''''] (3 / 4) = ''popular tech news''
   \<and> pickKeyword [''b'', ''''] (1 / 4) = ''b''
   \<and> sent (triggerImmediateSession [] None (env_at 1000 1) empty_world)
     = [\<lparr> to_tab = 1, params = \<lparr> keyword = ''popular tech news'', params_runId = None,
                                   params_maxWatchSeconds = 900 \<rparr>,
          callback = Some ([], None) \<rparr>]
   \<and> sent (triggerSession ''session-run-1000-5''
             \<lparr> draw = 3 / 4, tabId = 1, inject_error = None, now = 1000 \<rparr>
             (empty_world\<lparr> store := empty_store\<lparr> currentRun := Some \<lparr> cr_id = ''run-1000'',
                cr_startTs = 1000, cr_schedule = [], cr_keywords = [''b'', ''''],
                cr_createdAt = 1000 \<rparr> \<rparr> \<rparr>))
     = [\<lparr> to_tab = 1, params = \<lparr> keyword = ''popular tech news'', params_runId = Some ''run-1000'',
                                   params_maxWatchSeconds = 900 \<rparr>,
          callback = None \<rparr>]"
proof -
  from startSession_keyword_nonempty [of "[''b'', '''']" "3 / 4"]
  have "pickKeyword [''b'', ''''] (3 / 4) =
       (if 0 \<le> \<lfloor>js_mul (3 / 4) (real (length [''b'', '''']))\<rfloor>
           \<and> \<lfloor>js_mul (3 / 4) (real (length [''b'', '''']))\<rfloor> < int (length [''b'', ''''])
           \<and> [''b'', ''''] ! nat \<lfloor>js_mul (3 / 4) (real (length [''b'', '''']))\<rfloor> \<noteq> []
        then [''b'', ''''] ! nat \<lfloor>js_mul (3 / 4) (real (length [''b'', '''']))\<rfloor>
        else ''popular tech news'')" by blast
  then have a: "pickKeyword [''b'', ''''] (3 / 4) = ''popular tech news''"
    by (simp only: index_three_quarters) simp
  from startSession_keyword_nonempty [of "[''b'', '''']" "1 / 4"]
  have "pickKeyword [''b'', ''''] (1 / 4) =
       (if 0 \<le> \<lfloor>js_mul (1 / 4) (real (length [''b'', '''']))\<rfloor>
           \<and> \<lfloor>js_mul (1 / 4) (real (length [''b'', '''']))\<rfloor> < int (length [''b'', ''''])
           \<and> [''b'', ''''] ! nat \<lfloor>js_mul (1 / 4) (real (length [''b'', '''']))\<rfloor> \<noteq> []
        then [''b'', ''''] ! nat \<lfloor>js_mul (1 / 4) (real (length [''b'', '''']))\<rfloor>
        else ''popular tech news'')" by blast
  then have b: "pickKeyword [''b'', ''''] (1 / 4) = ''b''"
    by (simp only: index_quarter) simp
  from startSession_keyword_nonempty [of "[]" 0 None "env_at 1000 1" empty_world]
  have c: "sent (triggerImmediateSession [] None (env_at 1000 1) empty_world)
     = [\<lparr> to_tab = 1, params = \<lparr> keyword = ''popular tech news'', params_runId = None,
                                   params_maxWatchSeconds = 900 \<rparr>,
          callback = Some ([], None) \<rparr>]"
    by (simp add: env_at_def empty_world_def pick_empty)
  from startSession_keyword_nonempty [of "[]" 0 None
         "\<lparr> draw = 3 / 4, tabId = 1, inject_error = None, now = 1000 \<rparr>"
         "empty_world\<lparr> store := empty_store\<lparr> currentRun := Some \<lparr> cr_id = ''run-1000'',
                cr_startTs = 1000, cr_schedule = [], cr_keywords = [''b'', ''''],
                cr_createdAt = 1000 \<rparr> \<rparr> \<rparr>" "''session-run-1000-5''"]
  have d: "sent (triggerSession ''session-run-1000-5''
             \<lparr> draw = 3 / 4, tabId = 1, inject_error = None, now = 1000 \<rparr>
             (empty_world\<lparr> store := empty_store\<lparr> currentRun := Some \<lparr> cr_id = ''run-1000'',
                cr_startTs = 1000, cr_schedule = [], cr_keywords = [''b'', ''''],
                cr_createdAt = 1000 \<rparr> \<rparr> \<rparr>))
     = [\<lparr> to_tab = 1, params = \<lparr> keyword = ''popular tech news'', params_runId = Some ''run-1000'',
                                   params_maxWatchSeconds = 900 \<rparr>,
          callback = None \<rparr>]"
    by (simp add: empty_world_def empty_store_def a)
  from a b c d show ?thesis by (intro conjI)
qed

section \<open>Runs that are not stopped or not unique\<close>

text \<open>The worked immediate run, evaluated.\<close>

lemma immediate_world_eval:
  "immediate_world =
     \<lparr> store = \<lparr> isRunning = Some True, runId = Some ''immediate-1000'', daysCompleted = None,
                 logs = None, stored_keywords = Some [''x''], startTs = Some 1000,
                 immediateMode = Some True, currentRun = None \<rparr>,
       alarms = [], notifications = [''ytboost-immediate-immediate-1000''], tabs = [1],
       sent = [\<lparr> to_tab = 1, params = \<lparr> keyword = ''x'', params_runId = Some ''immediate-1000'',
                                         params_maxWatchSeconds = 900 \<rparr>,
                callback = Some ([''x''], Some ''immediate-1000'') \<rparr>],
       timeouts = [] \<rparr>"
  by (simp add: immediate_world_def startImmediateSessions_def triggerImmediateSession_def env_at_def
      Let_def empty_world_def empty_store_def chosen_keywords_def pickKeyword_def js_index_def
      js_mul_def CONFIG_def show_nat.simps)


lemma after_result_eval:
  "after_result =
     \<lparr> store = \<lparr> isRunning = Some True, runId = Some ''immediate-1000'', daysCompleted = Some 1,
                 logs = Some [Result sample_result 2000 (Some 1)],
                 stored_keywords = Some [''x''], startTs = Some 1000,
                 immediateMode = Some True, currentRun = None \<rparr>,
       alarms = [], notifications = [''ytboost-session-2000'', ''ytboost-immediate-immediate-1000''],
       tabs = [],
       sent = [\<lparr> to_tab = 1, params = \<lparr> keyword = ''x'', params_runId = Some ''immediate-1000'',
                                         params_maxWatchSeconds = 900 \<rparr>,
                callback = Some ([''x''], Some ''immediate-1000'') \<rparr>],
       timeouts = [\<lparr> delay = 30000, t_keywords = [''x''], t_runId = Some ''immediate-1000'' \<rparr>,
                   \<lparr> delay = 5000, t_keywords = [''x''], t_runId = Some ''immediate-1000'' \<rparr>] \<rparr>"
  by (simp add: after_result_def immediate_world_eval sendMessage_response_def onSessionResult_def
      after_append_def run_steps_def overlapped_def sample_msg_def second_entry_def appendLog_onto_def
      truncate_logs_def logs_or_empty_def Let_def truthy_bool_def days_completed_def js_eval
      CONFIG_def show_nat.simps)


text \<open>
  Claim C6 on the code.  In the immediate run started at time 1000 the first result arrives
  and the tab answers the \<^verbatim>\<open>startSession\<close> message.  The result listener has set a next
  session (5 s) and the response callback of \<^verbatim>\<open>triggerImmediateSession\<close> has set another
  (30 s): two pending dispatches for one completed result.  The user stops: \<^verbatim>\<open>isRunning\<close>
  is false and one message has been sent so far.  The 30 s timeout then fires;
  \<^verbatim>\<open>triggerImmediateSession\<close> does not read \<^verbatim>\<open>isRunning\<close> and sends a second
  \<^verbatim>\<open>startSession\<close> message for the stopped run.
\<close>

theorem immediate_dispatch_after_stop:
  "length (sent immediate_world) = 1
   \<and> timeouts after_result =
         [\<lparr> delay = 30000, t_keywords = [''x''], t_runId = Some ''immediate-1000'' \<rparr>,
          \<lparr> delay = 5000, t_keywords = [''x''], t_runId = Some ''immediate-1000'' \<rparr>]
   \<and> isRunning (store after_stop) = Some False
   \<and> length (sent after_stop) = 1
   \<and> isRunning (store after_timeout) = Some False
   \<and> sent after_timeout =
         \<lparr> to_tab = 2, params = \<lparr> keyword = ''x'', params_runId = Some ''immediate-1000'',
                                   params_maxWatchSeconds = 900 \<rparr>,
           callback = Some ([''x''], Some ''immediate-1000'') \<rparr> # sent after_stop"
  by (simp add: after_timeout_def after_stop_def after_result_eval immediate_world_eval timeout_fires_def
      triggerImmediateSession_def stopBoost_def stop_runId_def truthy_str_def cancelRunAlarms_def
      env_at_def Let_def pickKeyword_def js_index_def js_mul_def CONFIG_def)

text \<open>
  Claim C1 on the code.  \<^verbatim>\<open>startImmediateSessions\<close> does not read \<^verbatim>\<open>isRunning\<close>: called at
  time 2000 while the scheduled run \<^verbatim>\<open>run-1000\<close> is active, it overwrites the run id, the
  keywords and the start time and sends a \<^verbatim>\<open>startSession\<close> message.
\<close>

theorem startImmediate_while_running:
  "isRunning (store scheduled_world) = Some True
   \<and> runId (store scheduled_world) = Some ''run-1000''
   \<and> stored_keywords (store scheduled_world) = Some [''a'', ''b'']
   \<and> startTs (store scheduled_world) = Some 1000
   \<and> runId (store (startImmediateSessions (Some [''x'']) (env_at 2000 1) scheduled_world))
        = Some ''immediate-2000''
   \<and> stored_keywords (store (startImmediateSessions (Some [''x'']) (env_at 2000 1) scheduled_world))
        = Some [''x'']
   \<and> startTs (store (startImmediateSessions (Some [''x'']) (env_at 2000 1) scheduled_world))
        = Some 2000
   \<and> length (sent (startImmediateSessions (Some [''x'']) (env_at 2000 1) scheduled_world))
        = length (sent scheduled_world) + 1"
  by (simp add: store_scheduled_world startImmediateSessions_def triggerImmediateSession_def env_at_def
      Let_def chosen_keywords_def show_nat.simps)


section \<open>Stale alarms\<close>

lemma alarms_create_keeps:
  "(n, t) \<in> set as \<Longrightarrow> n \<noteq> name \<Longrightarrow> (n, t) \<in> set (alarms_create name t' as)"
  by (simp add: alarms_create_def alarms_clear_def)

lemma session_alarms_keep:
  "(n, t) \<in> set as \<Longrightarrow> \<not> prefix ''session-'' n \<Longrightarrow>
   (n, t) \<in> set (fold (\<lambda>ts. alarms_create (session_alarm_prefix rid @ fmt ts) ts) sched as)"
proof (induction sched arbitrary: as)
  case Nil
  then show ?case by simp
next
  case (Cons ts sched)
  from Cons.prems(2) have "n \<noteq> session_alarm_prefix rid @ fmt ts"
    by (auto simp: session_alarm_prefix_def)
  with Cons.prems(1) have "(n, t) \<in> set (alarms_create (session_alarm_prefix rid @ fmt ts) ts as)"
    by (rule alarms_create_keeps)
  from Cons.IH [OF this Cons.prems(2)] show ?case by simp
qed

lemma store_second_run_world:
  "isRunning (store second_run_world) = Some True \<and> runId (store second_run_world) = Some ''run-2000''"
  by (simp add: second_run_world_def startBoost_def scheduleAlarmsForRun_def Let_def stopBoost_def
      truthy_bool_def show_nat.simps split: option.splits)

lemma old_end_alarm_registered: "(''end-run-1000'', 604861000) \<in> set (alarms second_run_world)"
proof -
  have "(''end-run-1000'', 604861000) \<in> set (alarms (stopBoost scheduled_world))"
    by (simp add: alarms_scheduled_world stopBoost_def Let_def cancelRunAlarms_filter
        session_alarm_prefix_def split: option.splits)
  then have "(''end-run-1000'', 604861000) \<in> set (fold (\<lambda>ts. alarms_create (session_alarm_prefix ''run-2000'' @ digits_of ts) ts)
           (generateSchedule late_draws 2000) (alarms (stopBoost scheduled_world)))"
    by (rule session_alarms_keep) simp
  then have "(''end-run-1000'', 604861000) \<in> set (alarms_create ''end-run-2000''
         (js_add (js_add (real 2000) (days_ms (real (days CONFIG)))) (js_mul 60 1000))
         (fold (\<lambda>ts. alarms_create (session_alarm_prefix ''run-2000'' @ digits_of ts) ts)
           (generateSchedule late_draws 2000) (alarms (stopBoost scheduled_world))))"
    by (rule alarms_create_keeps) simp
  then show ?thesis
    by (simp add: second_run_world_def startBoost_def scheduleAlarmsForRun_def Let_def stopBoost_def
        truthy_bool_def show_nat.simps split: option.splits)
qed

text \<open>
  Claim C9 on the code.  The run \<^verbatim>\<open>run-1000\<close> was stopped and \<^verbatim>\<open>run-2000\<close> started.  The end
  alarm of the first run is still registered; when it fires, the \<^verbatim>\<open>end-\<close> branch of the
  alarm listener compares no run id and ends the active run \<^verbatim>\<open>run-2000\<close>.
\<close>

theorem stale_end_alarm_ends_run:
  "isRunning (store second_run_world) = Some True
   \<and> runId (store second_run_world) = Some ''run-2000''
   \<and> (''end-run-1000'', 604861000) \<in> set (alarms second_run_world)
   \<and> isRunning (store (onAlarm ''end-run-1000'' (env_at 604861000 1) second_run_world)) = Some False
   \<and> runId (store (onAlarm ''end-run-1000'' (env_at 604861000 1) second_run_world)) = None"
  by (simp add: store_second_run_world old_end_alarm_registered onAlarm_def)

text \<open>The \<^verbatim>\<open>session-\<close> branch does compare: a session alarm of another run changes
  nothing.\<close>

lemma alarm_runId_example: "alarm_runId ''session-run-1000-18901000'' = ''run-1000''"
  by (simp add: alarm_runId_def lastIndexOf_def slice_to_def)

lemma stale_session_alarm_ignored:
  assumes "prefix ''session-'' name" "runId (store w) = Some rid" "rid \<noteq> []" "alarm_runId name \<noteq> rid"
  shows "onAlarm name env w = w"
  using assms by (cases rid) (simp_all add: onAlarm_def truthy_str_def)


section \<open>Result messages and the log\<close>

text \<open>The appends write the key \<^verbatim>\<open>logs\<close> and nothing else, in whatever order their steps run.\<close>

lemma run_step_frame: "(shared (run_step e1 e2 s a))\<lparr> logs := x \<rparr> = (shared a)\<lparr> logs := x \<rparr>"
  by (cases s) (simp_all add: appendLog_onto_def split: option.splits)

lemma fold_run_step_frame:
  "(shared (fold (run_step e1 e2) steps a))\<lparr> logs := x \<rparr> = (shared a)\<lparr> logs := x \<rparr>"
  by (induction steps arbitrary: a) (simp_all add: run_step_frame)

lemma run_steps_frame: "(run_steps e1 e2 steps st)\<lparr> logs := x \<rparr> = st\<lparr> logs := x \<rparr>"
  by (simp add: run_steps_def fold_run_step_frame)

lemma run_steps_fields:
  "isRunning (run_steps e1 e2 steps st) = isRunning st"
  "runId (run_steps e1 e2 steps st) = runId st"
  "daysCompleted (run_steps e1 e2 steps st) = daysCompleted st"
  "stored_keywords (run_steps e1 e2 steps st) = stored_keywords st"
  "startTs (run_steps e1 e2 steps st) = startTs st"
  "immediateMode (run_steps e1 e2 steps st) = immediateMode st"
  "currentRun (run_steps e1 e2 steps st) = currentRun st"
  using run_steps_frame [where x = None and ?e1.0 = e1 and ?e2.0 = e2 and steps = steps and st = st]
  by (metis store.select_convs store.surjective store.update_convs)+

text \<open>Both appends have read the old log: the write that comes last decides, and the log
  gains its entry alone.\<close>

lemma run_steps_overlapped:
  "logs (run_steps e1 b overlapped st) = Some (take (maxLogs CONFIG) (b # logs_or_empty st))"
  by (simp add: overlapped_def run_steps_def appendLog_onto_def truncate_logs_take logs_or_empty_def
      split: option.splits)

lemma run_steps_logs:
  assumes "steps \<in> set interleavings"
  shows "logs (run_steps (Some a) b steps st) = Some (take (maxLogs CONFIG) (b # logs_or_empty st))
       \<or> logs (run_steps (Some a) b steps st) = Some (take (maxLogs CONFIG) (a # logs_or_empty st))"
  using assms
  by (auto simp: interleavings_def run_steps_def appendLog_onto_def truncate_logs_take logs_or_empty_def)

lemma run_steps_logs_no_first:
  assumes "steps \<in> set interleavings"
  shows "logs (run_steps None b steps st) = Some (take (maxLogs CONFIG) (b # logs_or_empty st))"
  using assms
  by (auto simp: interleavings_def run_steps_def appendLog_onto_def truncate_logs_take logs_or_empty_def)

lemma logs_after_append: "logs (store (after_append msg u t w)) = logs (store w)"
  by (simp add: after_append_def Let_def split: option.splits nat.splits)

text \<open>The first listener's write can also come after the rest of the second listener: the
  two commute.\<close>

lemma after_append_commutes:
  "store (after_append msg u t (w\<lparr> store := appendLog_onto snapshot e (store w) \<rparr>))
     = appendLog_onto snapshot e (store (after_append msg u t w))
   \<and> timeouts (after_append msg u t (w\<lparr> store := appendLog_onto snapshot e (store w) \<rparr>))
     = timeouts (after_append msg u t w)"
  by (auto simp: after_append_def appendLog_onto_def days_completed_def Let_def
      split: option.splits nat.splits)

lemma logs_onSessionResult:
  "logs (store (onSessionResult steps msg u t w))
     = logs (run_steps (map_option (\<lambda>r. first_entry r t) (result msg)) (second_entry msg t)
               steps (store w))"
  by (simp add: onSessionResult_def logs_after_append)





lemma after_append_timeouts:
  "timeouts (after_append msg u t w) =
     (case stored_keywords (store w) of
        Some kws \<Rightarrow>
          (if truthy_bool (immediateMode (store w)) \<and> truthy_bool (isRunning (store w))
           then \<lparr> delay = js_add (real_of_int \<lfloor>js_mul u 10000\<rfloor>) 5000, t_keywords = kws,
                   t_runId = runId (store w) \<rparr> # timeouts w
           else timeouts w)
      | None \<Rightarrow> timeouts w)"
  by (simp add: after_append_def Let_def split: option.splits nat.splits)

lemma after_append_store:
  "store (after_append msg u t w) = (store w)\<lparr> daysCompleted := Some (days_completed (store w) t) \<rparr>"
  by (simp add: after_append_def Let_def split: option.splits nat.splits)

lemma after_append_rest:
  "alarms (after_append msg u t w) = alarms w \<and> sent (after_append msg u t w) = sent w"
  by (simp add: after_append_def Let_def split: option.splits nat.splits)

lemma days_completed_run_steps:
  "days_completed (run_steps e1 e2 steps st) t = days_completed st t"
  by (simp add: days_completed_def run_steps_fields split: option.splits nat.splits)

lemma run_steps_logs_any:
  assumes "steps \<in> set interleavings"
  shows "logs (run_steps e1 b steps st) = Some (take (maxLogs CONFIG) (b # logs_or_empty st))
       \<or> (\<exists>a. e1 = Some a
             \<and> logs (run_steps e1 b steps st) = Some (take (maxLogs CONFIG) (a # logs_or_empty st)))"
proof (cases e1)
  case None
  then show ?thesis by (simp add: run_steps_logs_no_first [OF assms])
next
  case (Some a)
  with run_steps_logs [OF assms, of a b st] show ?thesis by simp
qed

text \<open>
  Claim C5, as amended.  A result message is handled the same whatever run id it carries and
  whatever run is active; no handler reads a run id from it.  For both orders of the writes:
  the log afterwards is the old log with the result object (the second listener's entry) or
  the first listener's entry for the result put in front, cut to \<open>maxLogs\<close>; a further
  dispatch is scheduled exactly when the store has keywords and \<^verbatim>\<open>immediateMode\<close> and
  \<^verbatim>\<open>isRunning\<close> are truthy, and it is for the stored run id; \<^verbatim>\<open>daysCompleted\<close> is
  recomputed; \<^verbatim>\<open>isRunning\<close>, \<^verbatim>\<open>runId\<close>, the keywords, \<^verbatim>\<open>startTs\<close>, \<^verbatim>\<open>immediateMode\<close>,
  \<^verbatim>\<open>currentRun\<close>, the alarms and the sent messages are unchanged.
\<close>

theorem sessionResult_ignores_run_id:
  assumes "steps \<in> set interleavings"
  shows "(logs (store (onSessionResult steps msg u t w))
            = Some (take (maxLogs CONFIG) (second_entry msg t # logs_or_empty (store w)))
          \<or> (\<exists>r. result msg = Some r
                \<and> logs (store (onSessionResult steps msg u t w))
                    = Some (take (maxLogs CONFIG) (first_entry r t # logs_or_empty (store w)))))
       \<and> timeouts (onSessionResult steps msg u t w) =
           (case stored_keywords (store w) of
              Some kws \<Rightarrow>
                (if truthy_bool (immediateMode (store w)) \<and> truthy_bool (isRunning (store w))
                 then \<lparr> delay = js_add (real_of_int \<lfloor>js_mul u 10000\<rfloor>) 5000, t_keywords = kws,
                         t_runId = runId (store w) \<rparr> # timeouts w
                 else timeouts w)
            | None \<Rightarrow> timeouts w)
       \<and> isRunning (store (onSessionResult steps msg u t w)) = isRunning (store w)
       \<and> runId (store (onSessionResult steps msg u t w)) = runId (store w)
       \<and> stored_keywords (store (onSessionResult steps msg u t w)) = stored_keywords (store w)
       \<and> startTs (store (onSessionResult steps msg u t w)) = startTs (store w)
       \<and> immediateMode (store (onSessionResult steps msg u t w)) = immediateMode (store w)
       \<and> currentRun (store (onSessionResult steps msg u t w)) = currentRun (store w)
       \<and> daysCompleted (store (onSessionResult steps msg u t w)) = Some (days_completed (store w) t)
       \<and> alarms (onSessionResult steps msg u t w) = alarms w
       \<and> sent (onSessionResult steps msg u t w) = sent w"
proof -
  from run_steps_logs_any [OF assms, of "map_option (\<lambda>r. first_entry r t) (result msg)"
         "second_entry msg t" "store w"]
  have a: "logs (store (onSessionResult steps msg u t w))
            = Some (take (maxLogs CONFIG) (second_entry msg t # logs_or_empty (store w)))
          \<or> (\<exists>r. result msg = Some r
                \<and> logs (store (onSessionResult steps msg u t w))
                    = Some (take (maxLogs CONFIG) (first_entry r t # logs_or_empty (store w))))"
    by (auto simp: logs_onSessionResult)
  have b: "timeouts (onSessionResult steps msg u t w) =
           (case stored_keywords (store w) of
              Some kws \<Rightarrow>
                (if truthy_bool (immediateMode (store w)) \<and> truthy_bool (isRunning (store w))
                 then \<lparr> delay = js_add (real_of_int \<lfloor>js_mul u 10000\<rfloor>) 5000, t_keywords = kws,
                         t_runId = runId (store w) \<rparr> # timeouts w
                 else timeouts w)
            | None \<Rightarrow> timeouts w)"
    by (auto simp: onSessionResult_def after_append_timeouts run_steps_fields split: option.splits)
  have c: "store (onSessionResult steps msg u t w) =
      (run_steps (map_option (\<lambda>r. first_entry r t) (result msg)) (second_entry msg t) steps (store w))
        \<lparr> daysCompleted := Some (days_completed (store w) t) \<rparr>"
    by (simp add: onSessionResult_def after_append_store days_completed_run_steps)
  have d: "alarms (onSessionResult steps msg u t w) = alarms w"
    "sent (onSessionResult steps msg u t w) = sent w"
    by (simp_all add: onSessionResult_def after_append_rest)
  have f: "isRunning (store (onSessionResult steps msg u t w)) = isRunning (store w)"
    "runId (store (onSessionResult steps msg u t w)) = runId (store w)"
    "stored_keywords (store (onSessionResult steps msg u t w)) = stored_keywords (store w)"
    "startTs (store (onSessionResult steps msg u t w)) = startTs (store w)"
    "immediateMode (store (onSessionResult steps msg u t w)) = immediateMode (store w)"
    "currentRun (store (onSessionResult steps msg u t w)) = currentRun (store w)"
    "daysCompleted (store (onSessionResult steps msg u t w)) = Some (days_completed (store w) t)"
    by (simp_all add: c run_steps_fields)
  from a b d f show ?thesis by (intro conjI)
qed

text \<open>
  Claim C5 as stated fails: while \<^verbatim>\<open>immediate-1000\<close> is the active run, a result that
  carries the run id \<^verbatim>\<open>run-500\<close> is written to the log and a next session is scheduled.
\<close>

theorem stale_result_is_logged:
  "runId (store immediate_world) = Some ''immediate-1000''
   \<and> map_option res_runId (result stale_msg) = Some (Some ''run-500'')
   \<and> logs (store immediate_world) = None
   \<and> timeouts immediate_world = []
   \<and> logs (store (onSessionResult overlapped stale_msg 0 2000 immediate_world))
       = Some [Result (sample_result\<lparr> res_runId := Some ''run-500'' \<rparr>) 2000 (Some 1)]
   \<and> timeouts (onSessionResult overlapped stale_msg 0 2000 immediate_world)
       = [\<lparr> delay = 5000, t_keywords = [''x''], t_runId = Some ''immediate-1000'' \<rparr>]"
  by (simp add: immediate_world_eval onSessionResult_def after_append_def run_steps_def overlapped_def
      stale_msg_def second_entry_def appendLog_onto_def truncate_logs_def logs_or_empty_def Let_def
      truthy_bool_def CONFIG_def js_eval)

text \<open>The same stale message: every part of the store but the log and \<^verbatim>\<open>daysCompleted\<close> is
  as before, and the next session is set for the stored run id.\<close>

theorem sessionResult_ignores_run_id_witness:
  "overlapped \<in> set interleavings
   \<and> logs (store (onSessionResult overlapped stale_msg 0 2000 immediate_world))
       = Some [Result (sample_result\<lparr> res_runId := Some ''run-500'' \<rparr>) 2000 (Some 1)]
   \<and> timeouts (onSessionResult overlapped stale_msg 0 2000 immediate_world)
       = [\<lparr> delay = 5000, t_keywords = [''x''], t_runId = Some ''immediate-1000'' \<rparr>]
   \<and> runId (store (onSessionResult overlapped stale_msg 0 2000 immediate_world)) = Some ''immediate-1000''
   \<and> isRunning (store (onSessionResult overlapped stale_msg 0 2000 immediate_world)) = Some True
   \<and> stored_keywords (store (onSessionResult overlapped stale_msg 0 2000 immediate_world)) = Some [''x'']
   \<and> startTs (store (onSessionResult overlapped stale_msg 0 2000 immediate_world)) = Some 1000
   \<and> daysCompleted (store (onSessionResult overlapped stale_msg 0 2000 immediate_world)) = Some 1"
proof -
  have h: "overlapped \<in> set interleavings" by (simp add: overlapped_def interleavings_def)
  have e: "second_entry stale_msg 2000
             = Result (sample_result\<lparr> res_runId := Some ''run-500'' \<rparr>) 2000 (Some 1)"
    by (simp add: second_entry_def stale_msg_def)
  have l: "logs (store (onSessionResult overlapped stale_msg 0 2000 immediate_world))
       = Some [Result (sample_result\<lparr> res_runId := Some ''run-500'' \<rparr>) 2000 (Some 1)]"
    by (simp add: logs_onSessionResult run_steps_overlapped e immediate_world_eval logs_or_empty_def
        CONFIG_fields)
  from sessionResult_ignores_run_id [OF h, of stale_msg 0 2000 immediate_world] h l
  show ?thesis
    by (simp add: immediate_world_eval truthy_bool_def days_completed_def CONFIG_def js_eval)
qed

end
